theory Spec2Isabelle
  imports Complex_Main
begin

section \<open>Values shared by the modules\<close>

text \<open>
  A JavaScript exception is a value of type \<open>error\<close>; a function that may throw returns
  \<open>error + 'a\<close> with \<open>Inl\<close> for the exception.  \<open>Error m\<close> is \<open>new Error(m)\<close> raised by
  this repository's own code, \<open>TypeError\<close>, \<open>RangeError\<close> and \<open>SyntaxError\<close> are raised by the
  JavaScript runtime (the message text is the runtime's), \<open>ServiceError\<close> is an exception
  object (an instance of \<open>Error\<close>) thrown by a vendor SDK call, and \<open>NonError\<close> is any thrown
  value that is not an instance of \<open>Error\<close>.
\<close>

datatype error =
    Error string
  | TypeError string
  | RangeError string
  | SyntaxError string
  | ServiceError string
  | NonError

fun instanceofError :: "error \<Rightarrow> bool" where
  "instanceofError NonError = False"
| "instanceofError _ = True"

fun message :: "error \<Rightarrow> string" where
  "message (Error m) = m"
| "message (TypeError m) = m"
| "message (RangeError m) = m"
| "message (SyntaxError m) = m"
| "message (ServiceError m) = m"
| "message NonError = []"

text \<open>\<open>a || b\<close> on a value that is a string or \<open>undefined\<close>: the empty string is falsy.\<close>

fun orElse :: "string option \<Rightarrow> string \<Rightarrow> string" where
  "orElse None d = d"
| "orElse (Some s) d = (if s = [] then d else s)"

text \<open>Decimal rendering of an integer, as a template literal renders a number.\<close>

definition digit :: "nat \<Rightarrow> char" where
  "digit n = ''0123456789'' ! (n mod 10)"

fun show_nat :: "nat \<Rightarrow> string" where
  "show_nat n = (if n < 10 then [digit n] else show_nat (n div 10) @ [digit n])"

declare show_nat.simps [simp del]

definition show_int :: "int \<Rightarrow> string" where
  "show_int i = (if i < 0 then CHR ''-'' # show_nat (nat (- i)) else show_nat (nat i))"

section \<open>lib/types: the data points\<close>

text \<open>
  A \<open>DataPoint\<close> has a \<open>date\<close> string, an \<open>actual\<close> and a \<open>forecast\<close>, each a number or
  \<open>null\<close> (\<open>None\<close>).  Numbers are only stored and passed on, they are modelled as reals.
\<close>

record DataPoint =
  date :: string
  actual :: "real option"
  forecast :: "real option"

section \<open>lib/config\<close>

text \<open>
  A value that \<open>JSON.parse\<close> returns.  The members of an object are listed in their order.
\<close>

datatype json =
    JNull
  | JBoolean bool
  | JNumber real
  | JString string
  | JArray "json list"
  | JObject "(string \<times> json) list"

text \<open>
  The interface \<open>AppConfig\<close>.  The configuration read from the parameter store is cast to
  it without a check, so each property holds whatever the stored value has there: any
  JSON value, or \<open>undefined\<close> (\<open>None\<close>) when the stored value has no such property.
\<close>

record AppConfig =
  dataBucket :: "json option"
  sageMakerRoleArn :: "json option"
  region :: "json option"
  environment :: "json option"

text \<open>The variables of \<open>process.env\<close> that the code reads; \<open>None\<close> is \<open>undefined\<close>.\<close>

record process_env =
  NODE_ENV :: "string option"
  ENVIRONMENT :: "string option"
  DATA_BUCKET :: "string option"
  SAGEMAKER_ROLE_ARN :: "string option"
  AWS_PROFILE :: "string option"

definition defaultConfig :: "process_env \<Rightarrow> AppConfig" where
  "defaultConfig env =
     \<lparr> dataBucket = Some (JString (orElse (DATA_BUCKET env) ''retail-forecasting-data-dev'')),
       sageMakerRoleArn =
         Some (JString (orElse (SAGEMAKER_ROLE_ARN env)
                          ''arn:aws:iam::123456789012:role/SageMakerExecutionRole-dev'')),
       region = Some (JString ''us-east-1''),
       environment = Some (JString (orElse (NODE_ENV env) ''development'')) \<rparr>"

text \<open>
  What \<open>JSON.parse\<close> makes of the stored configuration: \<open>null\<close>; another falsy value
  (\<open>0\<close>, \<open>false\<close> or the empty string), whose properties are all \<open>undefined\<close>; or a truthy
  value with the properties it has (a number, a string, a boolean or an array has none of
  them).
\<close>

datatype parsed = ParsedNull | ParsedFalsy | ParsedTruthy AppConfig

definition noProperties :: AppConfig where
  "noProperties = \<lparr> dataBucket = None, sageMakerRoleArn = None, region = None, environment = None \<rparr>"

section \<open>The vendor services\<close>

text \<open>
  The requests of \<open>@aws-sdk/client-sagemaker\<close> that the code builds, with the fields it
  sets.  An optional field that may be \<open>undefined\<close> has an option type.
\<close>

record container =
  ModelDataUrl :: "string option"
  Image :: "string option"
  Environment :: "(string \<times> string) list option"

record candidate =
  CandidateName :: "string option"
  InferenceContainers :: "container list option"

record CompletionCriteria =
  MaxCandidates :: nat
  MaxRuntimePerTrainingJobInSeconds :: nat

record channel =
  S3DataType :: string
  S3Uri :: string
  TargetAttributeName :: string

record CreateAutoMLJobInput =
  AutoMLJobName :: string
  ProblemType :: string
  AutoMLJobConfig :: CompletionCriteria
  InputDataConfig :: "channel list"
  S3OutputPath :: string
  RoleArn :: "json option"

record variant =
  VariantName :: string
  ModelName :: string
  InitialInstanceCount :: nat
  InstanceType :: string

text \<open>The body of an endpoint invocation, before \<open>JSON.stringify\<close>.\<close>

record payload_instance =
  start :: "string option"
  target :: "real list"

record configuration =
  num_samples :: nat
  output_types :: "string list"
  quantiles :: "string list"
  prediction_length :: int

record payload =
  instances :: "payload_instance list"
  configuration :: configuration

datatype command =
    CreateAutoMLJobCommand CreateAutoMLJobInput
  | DescribeAutoMLJobCommand string
  | ListCandidatesForAutoMLJobCommand string
  | CreateModelCommand string container "json option"
  | CreateEndpointConfigCommand string "variant list"
  | CreateEndpointCommand string string
  | DescribeEndpointCommand string
  | InvokeEndpointCommand string string payload
  | DeleteEndpointCommand string
  | DeleteEndpointConfigCommand string
  | DeleteModelCommand string

text \<open>The responses, with the fields the code reads.\<close>

record DescribeAutoMLJobOutput =
  AutoMLJobStatus :: "string option"
  EndTime :: "int option"
  FailureReason :: "string option"

record DescribeEndpointOutput =
  EndpointStatus :: "string option"
  EndpointFailureReason :: "string option"
  CreationTime :: "int option"
  LastModifiedTime :: "int option"

text \<open>
  The parsed body of an endpoint response: \<open>response.predictions[0].mean\<close>.  A missing
  \<open>predictions\<close> or \<open>mean\<close> is \<open>None\<close>.
\<close>

record prediction =
  mean :: "real list option"

record forecast_response =
  predictions :: "prediction list option"

text \<open>
  Everything outside the process is a state of type \<open>'s\<close> on which the collaborators act:
  the SageMaker client's \<open>send\<close> for each kind of command (one field per response type; the
  commands whose response the code drops share \<open>sendVoid\<close>), the parameter store
  (\<open>ssmSend name\<close> is \<open>response.Parameter?.Value\<close> of \<open>GetParameterCommand\<close>), the dataset
  staging and the presigned URL of \<open>lib/s3-client\<close>, the clock, \<open>JSON.parse\<close> of the stored
  configuration (an exception when the text is not JSON),
  \<open>JSON.parse\<close> of an endpoint's response body (a body that is not JSON, or not an
  object, is an exception), the string that the runtime makes of a number, and the
  outcome of constructing a client.
\<close>

record 's sdk =
  sendCreateAutoMLJob :: "CreateAutoMLJobInput \<Rightarrow> 's \<Rightarrow> (error + string option) \<times> 's"
  sendDescribeAutoMLJob :: "string \<Rightarrow> 's \<Rightarrow> (error + DescribeAutoMLJobOutput) \<times> 's"
  sendListCandidates :: "string \<Rightarrow> 's \<Rightarrow> (error + candidate list option) \<times> 's"
  sendDescribeEndpoint :: "string \<Rightarrow> 's \<Rightarrow> (error + DescribeEndpointOutput) \<times> 's"
  sendInvokeEndpoint :: "string \<Rightarrow> string \<Rightarrow> payload \<Rightarrow> 's \<Rightarrow> (error + string) \<times> 's"
  sendVoid :: "command \<Rightarrow> 's \<Rightarrow> (error + unit) \<times> 's"
  ssmSend :: "string \<Rightarrow> 's \<Rightarrow> (error + string option) \<times> 's"
  uploadDatasetToS3 :: "DataPoint list \<Rightarrow> 's \<Rightarrow> (error + string) \<times> 's"
  getPresignedUploadUrl :: "string \<Rightarrow> string \<Rightarrow> 's \<Rightarrow> (error + string) \<times> 's"
  Date_now :: "'s \<Rightarrow> int"
  parseConfig :: "string \<Rightarrow> error + parsed"
  parseBody :: "string \<Rightarrow> error + forecast_response"
  Number_toString :: "real \<Rightarrow> string"
  newClient :: "error option"

text \<open>
  The state of the process and its surroundings: the outside world, the module variable
  \<open>cachedConfig\<close> (\<open>None\<close> is \<open>null\<close> or another falsy value: the code only tests it for
  truth), and two logs kept for verification only: the names
  of the parameters fetched from the parameter store, and the SageMaker commands sent,
  each with the exception it raised if any, oldest first.
\<close>

record 's world =
  remote :: 's
  cachedConfig :: "AppConfig option"
  ssmCalls :: "string list"
  calls :: "(command \<times> error option) list"

fun outcome :: "error + 'a \<Rightarrow> error option" where
  "outcome (Inl e) = Some e"
| "outcome (Inr _) = None"

text \<open>\<open>await client.send(c)\<close>: the call acts on the outside world and is logged.\<close>

definition send :: "command \<Rightarrow> ('s \<Rightarrow> (error + 'a) \<times> 's) \<Rightarrow> 's world \<Rightarrow> (error + 'a) \<times> 's world" where
  "send c f w =
     (case f (remote w) of
        (r, s') \<Rightarrow> (r, w\<lparr>remote := s', calls := calls w @ [(c, outcome r)]\<rparr>))"

subsection \<open>getConfig\<close>

text \<open>
  The body of the \<open>try\<close> block of \<open>getConfig\<close>: the fetch from the parameter store.  A
  falsy \<open>configValue\<close> (\<open>undefined\<close> or the empty string) gives the default configuration
  without caching; a value that parses is assigned to \<open>cachedConfig\<close> and returned.  The
  value returned is \<open>None\<close> for \<open>null\<close> and otherwise carries the properties its readers
  see.
\<close>

definition parameterName :: "process_env \<Rightarrow> string" where
  "parameterName env =
     (let environment = orElse (ENVIRONMENT env) ''prod''
      in ''/retail-forecasting/'' @ environment @ ''/config'')"

definition fetchConfig :: "process_env \<Rightarrow> 's sdk \<Rightarrow> 's world \<Rightarrow> (error + AppConfig option) \<times> 's world" where
  "fetchConfig env sdk w =
     (case ssmSend sdk (parameterName env) (remote w) of
           (r, s') \<Rightarrow>
             (let w1 = w\<lparr>remote := s', ssmCalls := ssmCalls w @ [parameterName env]\<rparr>
              in case r of
                   Inl e \<Rightarrow> (Inl e, w1)
                 | Inr configValue \<Rightarrow>
                     (if configValue = None \<or> configValue = Some [] then
                        (Inr (Some (defaultConfig env)), w1)
                      else
                        (case parseConfig sdk (the configValue) of
                           Inl e \<Rightarrow> (Inl e, w1)
                         | Inr ParsedNull \<Rightarrow> (Inr None, w1\<lparr>cachedConfig := None\<rparr>)
                         | Inr ParsedFalsy \<Rightarrow>
                             (Inr (Some noProperties), w1\<lparr>cachedConfig := None\<rparr>)
                         | Inr (ParsedTruthy config) \<Rightarrow>
                             (Inr (Some config), w1\<lparr>cachedConfig := Some config\<rparr>)))))"

text \<open>
  \<open>getConfig\<close>: the cached value if there is one, the default outside production, else the
  fetch, whose exceptions the \<open>catch\<close> turns into the default configuration.  The result
  is \<open>None\<close> when the stored parameter parses to \<open>null\<close>.
\<close>

definition getConfig :: "process_env \<Rightarrow> 's sdk \<Rightarrow> 's world \<Rightarrow> (error + AppConfig option) \<times> 's world" where
  "getConfig env sdk w =
     (case cachedConfig w of
        Some c \<Rightarrow> (Inr (Some c), w)
      | None \<Rightarrow>
          (if NODE_ENV env \<noteq> Some ''production'' then (Inr (Some (defaultConfig env)), w)
           else
             (case fetchConfig env sdk w of
                (Inl e, w') \<Rightarrow> (Inr (Some (defaultConfig env)), w')
              | (Inr c, w') \<Rightarrow> (Inr c, w'))))"

section \<open>The Date object of the runtime\<close>

text \<open>
  The code reads and writes dates through the built-in \<open>Date\<close>.  Its operations are
  modelled as ECMA-262 defines them, on time values in milliseconds since the epoch; the
  time value \<open>NaN\<close> of an invalid date is \<open>None\<close>.  What the language leaves to the host is
  a parameter: \<open>Date_parse\<close>, the time value of a date string, and \<open>LocalTZA t isUTC\<close>, the
  offset of local time from UTC in milliseconds at the time \<open>t\<close>, which is a UTC time
  value when \<open>isUTC\<close> holds and a local one otherwise (the offset changes with daylight
  saving).
\<close>

record runtime =
  Date_parse :: "string \<Rightarrow> int option"
  LocalTZA :: "int \<Rightarrow> bool \<Rightarrow> int"

definition msPerDay :: int where
  "msPerDay = 86400000"

definition Day :: "int \<Rightarrow> int" where
  "Day t = t div msPerDay"

definition TimeWithinDay :: "int \<Rightarrow> int" where
  "TimeWithinDay t = t mod msPerDay"

definition DaysInYear :: "int \<Rightarrow> int" where
  "DaysInYear y =
     (if y mod 4 \<noteq> 0 then 365 else if y mod 100 \<noteq> 0 then 366
      else if y mod 400 \<noteq> 0 then 365 else 366)"

definition DayFromYear :: "int \<Rightarrow> int" where
  "DayFromYear y = 365 * (y - 1970) + (y - 1969) div 4 - (y - 1901) div 100 + (y - 1601) div 400"

text \<open>A year has \<open>DaysInYear\<close> days: the first day of the next year.\<close>

lemma div_succ:
  fixes x n :: int
  assumes n: "0 < n"
  shows "(x + 1) div n = x div n + (if (x + 1) mod n = 0 then 1 else 0)"
proof (cases "x mod n + 1 < n")
  case True
  have eq: "x + 1 = n * (x div n) + (x mod n + 1)" by simp
  have nn: "0 \<le> x mod n + 1" using n by (simp add: add_nonneg_nonneg)
  have r0: "0 \<le> x mod n" using n by simp
  have d: "(x + 1) div n = x div n" by (rule int_div_pos_eq [OF eq nn True])
  have m: "(x + 1) mod n = x mod n + 1" by (rule int_mod_pos_eq [OF eq nn True])
  from m r0 have "(x + 1) mod n \<noteq> 0" by linarith
  with d show ?thesis by simp
next
  case False
  with pos_mod_bound [OF n, of x] have r: "x mod n + 1 = n" by linarith
  have "x + 1 = n * (x div n) + (x mod n + 1)" by simp
  also have "\<dots> = n * (x div n + 1) + 0" using r by (simp add: algebra_simps)
  finally have eq: "x + 1 = n * (x div n + 1) + 0" .
  from int_div_pos_eq [OF eq _ n] int_mod_pos_eq [OF eq _ n]
  show ?thesis by simp
qed

lemma mod_shift: "(y - n * k) mod n = y mod n" for y n k :: int
proof -
  have "y - n * k = y + n * (- k)" by simp
  then show ?thesis by (simp only: mod_mult_self2)
qed

lemma step4: "(y + 1 - 1969) div 4 = (y - 1969) div 4 + (if y mod 4 = 0 then 1 else 0)" for y :: int
proof -
  have "(y - 1969 + 1) mod 4 = (y - 4 * 492) mod 4" by simp
  then have "(y - 1969 + 1) mod 4 = y mod 4" by (simp only: mod_shift)
  with div_succ [of 4 "y - 1969"] show ?thesis by (simp add: algebra_simps)
qed

lemma step100: "(y + 1 - 1901) div 100 = (y - 1901) div 100 + (if y mod 100 = 0 then 1 else 0)" for y :: int
proof -
  have "(y - 1901 + 1) mod 100 = (y - 100 * 19) mod 100" by simp
  then have "(y - 1901 + 1) mod 100 = y mod 100" by (simp only: mod_shift)
  with div_succ [of 100 "y - 1901"] show ?thesis by (simp add: algebra_simps)
qed

lemma step400: "(y + 1 - 1601) div 400 = (y - 1601) div 400 + (if y mod 400 = 0 then 1 else 0)" for y :: int
proof -
  have "(y - 1601 + 1) mod 400 = (y - 400 * 4) mod 400" by simp
  then have "(y - 1601 + 1) mod 400 = y mod 400" by (simp only: mod_shift)
  with div_succ [of 400 "y - 1601"] show ?thesis by (simp add: algebra_simps)
qed

lemma m1: "y mod 100 = 0 \<Longrightarrow> y mod 4 = 0" for y :: int
  using mod_mod_cancel [of 4 100 y] by simp

lemma m2: "y mod 400 = 0 \<Longrightarrow> y mod 100 = 0" for y :: int
  using mod_mod_cancel [of 100 400 y] by simp

lemma DayFromYear_Suc: "DayFromYear (y + 1) = DayFromYear y + DaysInYear y"
  unfolding DayFromYear_def DaysInYear_def step4 step100 step400
  using m1[of y] m2[of y] by (simp split: if_splits)

text \<open>
  \<open>YearFromTime t\<close> is the largest \<open>y\<close> whose first day is not after \<open>t\<close>: a search upwards
  from a year that is not after it.
\<close>

function yearFrom :: "int \<Rightarrow> int \<Rightarrow> int" where
  "yearFrom y d = (if DayFromYear (y + 1) \<le> d then yearFrom (y + 1) d else y)"
  by pat_completeness auto
termination
proof (relation "measure (\<lambda>(y, d). nat (d - DayFromYear y))")
  show "wf (measure (\<lambda>(y, d). nat (d - DayFromYear y)))"
    by simp
next
  fix y d :: int
  assume le: "DayFromYear (y + 1) \<le> d"
  have "DayFromYear y < DayFromYear (y + 1)"
    by (simp add: DayFromYear_Suc DaysInYear_def)
  with le show "((y + 1, d), (y, d)) \<in> measure (\<lambda>(y, d). nat (d - DayFromYear y))"
    by simp
qed

declare yearFrom.simps [simp del]

definition YearFromDay :: "int \<Rightarrow> int" where
  "YearFromDay d = yearFrom (1970 + (if d < 0 then d div 365 else d div 366)) d"

definition YearFromTime :: "int \<Rightarrow> int" where
  "YearFromTime t = YearFromDay (Day t)"

definition InLeapYear :: "int \<Rightarrow> int" where
  "InLeapYear t = (if DaysInYear (YearFromTime t) = 366 then 1 else 0)"

definition DayWithinYear :: "int \<Rightarrow> int" where
  "DayWithinYear t = Day t - DayFromYear (YearFromTime t)"

definition MonthFromTime :: "int \<Rightarrow> int" where
  "MonthFromTime t =
     (let d = DayWithinYear t; l = InLeapYear t
      in if d < 31 then 0
         else if d < 59 + l then 1
         else if d < 90 + l then 2
         else if d < 120 + l then 3
         else if d < 151 + l then 4
         else if d < 181 + l then 5
         else if d < 212 + l then 6
         else if d < 243 + l then 7
         else if d < 273 + l then 8
         else if d < 304 + l then 9
         else if d < 334 + l then 10
         else 11)"

text \<open>The day within the year on which month \<open>m\<close> (0 to 11) begins.\<close>

definition monthStart :: "int \<Rightarrow> int \<Rightarrow> int" where
  "monthStart l m =
     (if m = 0 then 0
      else if m = 1 then 31
      else if m = 2 then 59 + l
      else if m = 3 then 90 + l
      else if m = 4 then 120 + l
      else if m = 5 then 151 + l
      else if m = 6 then 181 + l
      else if m = 7 then 212 + l
      else if m = 8 then 243 + l
      else if m = 9 then 273 + l
      else if m = 10 then 304 + l
      else 334 + l)"

definition DateFromTime :: "int \<Rightarrow> int" where
  "DateFromTime t = DayWithinYear t - monthStart (InLeapYear t) (MonthFromTime t) + 1"

text \<open>
  \<open>MakeDay year month date\<close>: the day number of the first of the month \<open>month mod 12\<close> of
  the year \<open>year + month div 12\<close>, plus \<open>date - 1\<close>.
\<close>

definition MakeDay :: "int \<Rightarrow> int \<Rightarrow> int \<Rightarrow> int" where
  "MakeDay year month dt =
     (let ym = year + month div 12; mn = month mod 12
      in DayFromYear ym + monthStart (if DaysInYear ym = 366 then 1 else 0) mn + dt - 1)"

definition MakeDate :: "int \<Rightarrow> int \<Rightarrow> int" where
  "MakeDate day time = day * msPerDay + time"

definition TimeClip :: "int \<Rightarrow> int option" where
  "TimeClip t = (if \<bar>t\<bar> > 8640000000000000 then None else Some t)"

definition LocalTime :: "runtime \<Rightarrow> int \<Rightarrow> int" where
  "LocalTime rt t = t + LocalTZA rt t True"

definition UTC :: "runtime \<Rightarrow> int \<Rightarrow> int" where
  "UTC rt t = t - LocalTZA rt t False"

text \<open>\<open>new Date(s)\<close> for a string, and the accessors; a number that may be \<open>NaN\<close> is an option.\<close>

definition newDate :: "runtime \<Rightarrow> string \<Rightarrow> int option" where
  "newDate rt s = (case Date_parse rt s of None \<Rightarrow> None | Some tv \<Rightarrow> TimeClip tv)"

definition getFullYear :: "runtime \<Rightarrow> int option \<Rightarrow> int option" where
  "getFullYear rt d = map_option (\<lambda>t. YearFromTime (LocalTime rt t)) d"

definition getMonth :: "runtime \<Rightarrow> int option \<Rightarrow> int option" where
  "getMonth rt d = map_option (\<lambda>t. MonthFromTime (LocalTime rt t)) d"

definition getDate :: "runtime \<Rightarrow> int option \<Rightarrow> int option" where
  "getDate rt d = map_option (\<lambda>t. DateFromTime (LocalTime rt t)) d"

definition setMonth :: "runtime \<Rightarrow> int option \<Rightarrow> int option \<Rightarrow> int option" where
  "setMonth rt d month =
     (case d of
        None \<Rightarrow> None
      | Some tv \<Rightarrow>
          (case month of
             None \<Rightarrow> None
           | Some m \<Rightarrow>
               (let t = LocalTime rt tv;
                    newDate = MakeDate (MakeDay (YearFromTime t) m (DateFromTime t)) (TimeWithinDay t)
                in TimeClip (UTC rt newDate))))"

definition padStart :: "nat \<Rightarrow> char \<Rightarrow> string \<Rightarrow> string" where
  "padStart n c s = replicate (n - length s) c @ s"

text \<open>\<open>String(x)\<close> of a number that may be \<open>NaN\<close>.\<close>

fun String :: "int option \<Rightarrow> string" where
  "String None = ''NaN''"
| "String (Some i) = show_int i"

definition isoYear :: "int \<Rightarrow> string" where
  "isoYear y =
     (if 0 \<le> y \<and> y \<le> 9999 then padStart 4 CHR ''0'' (show_int y)
      else (if y < 0 then ''-'' else ''+'') @ padStart 6 CHR ''0'' (show_int \<bar>y\<bar>))"

definition toISOString :: "int option \<Rightarrow> error + string" where
  "toISOString d =
     (case d of
        None \<Rightarrow> Inl (RangeError ''Invalid time value'')
      | Some t \<Rightarrow>
          Inr (isoYear (YearFromTime t) @ ''-'' @
               padStart 2 CHR ''0'' (show_int (MonthFromTime t + 1)) @ ''-'' @
               padStart 2 CHR ''0'' (show_int (DateFromTime t)) @ ''T'' @
               padStart 2 CHR ''0'' (show_int ((t div 3600000) mod 24)) @ '':'' @
               padStart 2 CHR ''0'' (show_int ((t div 60000) mod 60)) @ '':'' @
               padStart 2 CHR ''0'' (show_int ((t div 1000) mod 60)) @ ''.'' @
               padStart 3 CHR ''0'' (show_int (t mod 1000)) @ ''Z''))"

section \<open>Sequencing\<close>

text \<open>
  An asynchronous step takes the state and returns a value or an exception, with the new
  state.  \<open>await m k\<close> runs \<open>m\<close>, passes an exception on and otherwise continues with \<open>k\<close>;
  \<open>lift\<close> is a step that does not touch the state.  A \<open>catch\<close> block that logs and
  throws the same exception again changes nothing, so it has no counterpart below.
\<close>

definition await :: "('w \<Rightarrow> (error + 'a) \<times> 'w) \<Rightarrow> ('a \<Rightarrow> 'w \<Rightarrow> (error + 'b) \<times> 'w) \<Rightarrow> 'w \<Rightarrow> (error + 'b) \<times> 'w" where
  "await m k w = (case m w of (Inl e, w') \<Rightarrow> (Inl e, w') | (Inr a, w') \<Rightarrow> k a w')"

definition return :: "'a \<Rightarrow> 'w \<Rightarrow> (error + 'a) \<times> 'w" where
  "return a w = (Inr a, w)"

definition lift :: "error + 'a \<Rightarrow> 'w \<Rightarrow> (error + 'a) \<times> 'w" where
  "lift r w = (r, w)"

text \<open>A step of a collaborator that is not a SageMaker command: it acts on the outside only.\<close>

definition outside :: "('s \<Rightarrow> (error + 'a) \<times> 's) \<Rightarrow> 's world \<Rightarrow> (error + 'a) \<times> 's world" where
  "outside f w = (case f (remote w) of (r, s') \<Rightarrow> (r, w\<lparr>remote := s'\<rparr>))"

section \<open>lib/aws-config\<close>

datatype credentials = fromSSO "string option" | fromNodeProviderChain

record client_config =
  client_region :: string
  client_credentials :: credentials

definition getSageMakerClient :: "process_env \<Rightarrow> 's sdk \<Rightarrow> error + client_config" where
  "getSageMakerClient env sdk =
     (let isProduction = (NODE_ENV env = Some ''production'');
          hasAwsProfile = (AWS_PROFILE env \<noteq> None \<and> AWS_PROFILE env \<noteq> Some [])
      in case newClient sdk of
           Some e \<Rightarrow> Inl e
         | None \<Rightarrow>
             Inr \<lparr> client_region = ''us-east-1'',
                   client_credentials =
                     (if \<not> isProduction \<and> hasAwsProfile then fromSSO (AWS_PROFILE env)
                      else fromNodeProviderChain) \<rparr>)"

section \<open>lib/sagemaker-client\<close>

definition JOB_PREFIX :: string where
  "JOB_PREFIX = ''retail-forecast-''"

text \<open>\<open>xs?.[0]\<close>: \<open>undefined\<close> when the array is missing or empty.\<close>

fun first :: "'a list option \<Rightarrow> 'a option" where
  "first None = None"
| "first (Some []) = None"
| "first (Some (x # xs)) = Some x"

text \<open>
  Reading a property of the configuration: a \<open>TypeError\<close> when the configuration is
  \<open>null\<close>, else the property, which may be \<open>undefined\<close>.
\<close>

fun property :: "AppConfig option \<Rightarrow> (AppConfig \<Rightarrow> json option) \<Rightarrow> string \<Rightarrow> error + json option" where
  "property None f name = Inl (TypeError (''Cannot read properties of null (reading '' @ name @ '')''))"
| "property (Some c) f name = Inr (f c)"

text \<open>
  A value inside a template literal: the string that \<open>ToString\<close> of ECMA-262 makes of
  it.  An array is joined with commas, with nothing for an element \<open>null\<close>; any other
  object is \<open>[object Object]\<close>.
\<close>

fun join :: "string list \<Rightarrow> string" where
  "join [] = []"
| "join [x] = x"
| "join (x # y # ys) = x @ '','' @ join (y # ys)"

fun ToString :: "(real \<Rightarrow> string) \<Rightarrow> json \<Rightarrow> string" where
  "ToString num JNull = ''null''"
| "ToString num (JBoolean b) = (if b then ''true'' else ''false'')"
| "ToString num (JNumber n) = num n"
| "ToString num (JString s) = s"
| "ToString num (JArray xs) = join (map (\<lambda>x. if x = JNull then [] else ToString num x) xs)"
| "ToString num (JObject members) = ''[object Object]''"

fun template :: "(real \<Rightarrow> string) \<Rightarrow> json option \<Rightarrow> string" where
  "template num None = ''undefined''"
| "template num (Some v) = ToString num v"

subsection \<open>createForecastingJob\<close>

record named_job =
  jobName :: string

record created_job = named_job +
  jobArn :: "string option"

definition createForecastingJob ::
    "process_env \<Rightarrow> 's sdk \<Rightarrow> DataPoint list \<Rightarrow> string option \<Rightarrow> 's world \<Rightarrow> (error + created_job) \<times> 's world" where
  "createForecastingJob env sdk historicalData targetColumnArg =
     (let targetColumn = (case targetColumnArg of None \<Rightarrow> ''value'' | Some c \<Rightarrow> c) in
      await (getConfig env sdk) (\<lambda>config.
      await (outside (uploadDatasetToS3 sdk historicalData)) (\<lambda>datasetPath.
      (\<lambda>w.
        (let jobName = JOB_PREFIX @ show_int (Date_now sdk (remote w)) in
         await (lift (getSageMakerClient env sdk)) (\<lambda>sageMakerClient.
         await (lift (property config dataBucket ''dataBucket'')) (\<lambda>bucket.
         await (lift (property config sageMakerRoleArn ''sageMakerRoleArn'')) (\<lambda>role.
           (let input =
              \<lparr> AutoMLJobName = jobName,
                ProblemType = ''Forecasting'',
                AutoMLJobConfig =
                  \<lparr> MaxCandidates = 10, MaxRuntimePerTrainingJobInSeconds = 3600 \<rparr>,
                InputDataConfig =
                  [\<lparr> S3DataType = ''S3Prefix'', S3Uri = datasetPath,
                     TargetAttributeName = targetColumn \<rparr>],
                S3OutputPath = ''s3://'' @ template (Number_toString sdk) bucket @ ''/output/'',
                RoleArn = role \<rparr>
            in await (send (CreateAutoMLJobCommand input) (sendCreateAutoMLJob sdk input)) (\<lambda>response.
               return \<lparr> jobName = jobName, jobArn = response \<rparr>))))) w)))))"

subsection \<open>getJobStatus\<close>

text \<open>A value that may be \<open>null\<close> or \<open>undefined\<close>.\<close>

datatype 'a nullable = Null | Undefined | Value 'a

fun nullable_of :: "'a option \<Rightarrow> 'a nullable" where
  "nullable_of None = Undefined"
| "nullable_of (Some x) = Value x"

record job_status = named_job +
  status :: "string option"
  bestCandidate :: "candidate nullable"
  endTime :: "int option"
  failureReason :: "string option"

definition getJobStatus :: "process_env \<Rightarrow> 's sdk \<Rightarrow> string \<Rightarrow> 's world \<Rightarrow> (error + job_status) \<times> 's world" where
  "getJobStatus env sdk job =
     await (lift (getSageMakerClient env sdk)) (\<lambda>sageMakerClient.
     await (send (DescribeAutoMLJobCommand job) (sendDescribeAutoMLJob sdk job)) (\<lambda>response.
     await (if AutoMLJobStatus response = Some ''Completed'' then
              await (send (ListCandidatesForAutoMLJobCommand job) (sendListCandidates sdk job))
                (\<lambda>Candidates. return (nullable_of (first Candidates)))
            else return Null) (\<lambda>bestCandidate.
     return \<lparr> jobName = job,
              status = AutoMLJobStatus response,
              bestCandidate = bestCandidate,
              endTime = EndTime response,
              failureReason = FailureReason response \<rparr>)))"

subsection \<open>deployBestModel\<close>

record deployment =
  modelName :: string
  endpointConfigName :: string
  endpointName :: string

text \<open>\<open>bestCandidate.InferenceContainers?.[0]?.f\<close>\<close>

definition containerField :: "candidate \<Rightarrow> (container \<Rightarrow> 'a option) \<Rightarrow> 'a option" where
  "containerField c f = (case first (InferenceContainers c) of None \<Rightarrow> None | Some x \<Rightarrow> f x)"

definition bestCandidateOf :: "candidate list option \<Rightarrow> error + candidate" where
  "bestCandidateOf Candidates =
     (case first Candidates of
        None \<Rightarrow> Inl (Error ''No candidates found for the job'')
      | Some best \<Rightarrow>
          (if CandidateName best = None \<or> CandidateName best = Some [] then
             Inl (Error ''No candidates found for the job'')
           else Inr best))"

definition deployBestModel :: "process_env \<Rightarrow> 's sdk \<Rightarrow> string \<Rightarrow> 's world \<Rightarrow> (error + deployment) \<times> 's world" where
  "deployBestModel env sdk job =
     await (lift (getSageMakerClient env sdk)) (\<lambda>sageMakerClient.
     await (getConfig env sdk) (\<lambda>config.
     await (send (ListCandidatesForAutoMLJobCommand job) (sendListCandidates sdk job)) (\<lambda>Candidates.
     await (lift (bestCandidateOf Candidates)) (\<lambda>bestCandidate.
       (let modelName = job @ ''-model'' in
        await (lift (property config sageMakerRoleArn ''sageMakerRoleArn'')) (\<lambda>role.
          (let createModel =
             CreateModelCommand modelName
               \<lparr> ModelDataUrl = containerField bestCandidate ModelDataUrl,
                 Image = containerField bestCandidate Image,
                 Environment = containerField bestCandidate Environment \<rparr>
               role
           in await (send createModel (sendVoid sdk createModel)) (\<lambda>_.
             (let endpointConfigName = job @ ''-config'';
                  createConfig =
                    CreateEndpointConfigCommand endpointConfigName
                      [\<lparr> VariantName = ''AllTraffic'', ModelName = modelName,
                         InitialInstanceCount = 1, InstanceType = ''ml.m5.large'' \<rparr>]
              in await (send createConfig (sendVoid sdk createConfig)) (\<lambda>_.
                (let endpointName = job @ ''-endpoint'';
                     createEndpoint = CreateEndpointCommand endpointName endpointConfigName
                 in await (send createEndpoint (sendVoid sdk createEndpoint)) (\<lambda>_.
                      return \<lparr> modelName = modelName,
                               endpointConfigName = endpointConfigName,
                               endpointName = endpointName \<rparr>))))))))))))"

subsection \<open>getEndpointStatus\<close>

record endpoint_status =
  statusEndpointName :: string
  endpointStatus :: "string option"
  endpointFailureReason :: "string option"
  creationTime :: "int option"
  lastModifiedTime :: "int option"

definition getEndpointStatus :: "process_env \<Rightarrow> 's sdk \<Rightarrow> string \<Rightarrow> 's world \<Rightarrow> (error + endpoint_status) \<times> 's world" where
  "getEndpointStatus env sdk name =
     await (lift (getSageMakerClient env sdk)) (\<lambda>sageMakerClient.
     await (send (DescribeEndpointCommand name) (sendDescribeEndpoint sdk name)) (\<lambda>response.
     return \<lparr> statusEndpointName = name,
              endpointStatus = EndpointStatus response,
              endpointFailureReason = EndpointFailureReason response,
              creationTime = CreationTime response,
              lastModifiedTime = LastModifiedTime response \<rparr>))"

subsection \<open>cleanupSageMakerResources\<close>

record cleanup_result =
  success :: bool
  cleanup_message :: string

definition cleanupSageMakerResources ::
    "process_env \<Rightarrow> 's sdk \<Rightarrow> string \<Rightarrow> string \<Rightarrow> string \<Rightarrow> 's world \<Rightarrow> (error + cleanup_result) \<times> 's world" where
  "cleanupSageMakerResources env sdk endpoint endpointConfig model =
     await (lift (getSageMakerClient env sdk)) (\<lambda>sageMakerClient.
     await (send (DeleteEndpointCommand endpoint)
              (sendVoid sdk (DeleteEndpointCommand endpoint))) (\<lambda>_.
     await (send (DeleteEndpointConfigCommand endpointConfig)
              (sendVoid sdk (DeleteEndpointConfigCommand endpointConfig))) (\<lambda>_.
     await (send (DeleteModelCommand model)
              (sendVoid sdk (DeleteModelCommand model))) (\<lambda>_.
     return \<lparr> success = True, cleanup_message = ''Resources cleaned up successfully'' \<rparr>))))"

subsection \<open>getForecastFromEndpoint\<close>

text \<open>\<open>xs[i]\<close>: \<open>undefined\<close> outside the array.\<close>

definition elementAt :: "'a list \<Rightarrow> int \<Rightarrow> 'a option" where
  "elementAt xs i = (if 0 \<le> i \<and> i < int (length xs) then Some (xs ! nat i) else None)"

definition formatDate :: "runtime \<Rightarrow> DataPoint \<Rightarrow> string" where
  "formatDate rt point =
     (let d = newDate rt (date point)
      in String (getFullYear rt d) @ ''-'' @
         padStart 2 CHR ''0'' (String (map_option (\<lambda>m. m + 1) (getMonth rt d))) @ ''-'' @
         padStart 2 CHR ''0'' (String (getDate rt d)))"

definition prepareInputData :: "runtime \<Rightarrow> DataPoint list \<Rightarrow> int \<Rightarrow> payload" where
  "prepareInputData rt historicalData forecastHorizon =
     (let dates = map (formatDate rt) historicalData;
          values = map (\<lambda>point. case actual point of None \<Rightarrow> 0 | Some v \<Rightarrow> v) historicalData
      in \<lparr> instances = [\<lparr> start = elementAt dates 0, target = values \<rparr>],
           configuration =
             \<lparr> num_samples = 50,
               output_types = [''mean'', ''quantiles'', ''samples''],
               quantiles = [''0.1'', ''0.5'', ''0.9''],
               prediction_length = forecastHorizon \<rparr> \<rparr>)"

text \<open>
  The callback of \<open>predictions.mean.map\<close>: a copy of the last date with its month set to
  the month of the last date plus \<open>index + 1\<close>; \<open>toISOString\<close> throws on an invalid date.
\<close>

definition forecastDate :: "runtime \<Rightarrow> int option \<Rightarrow> nat \<Rightarrow> int option" where
  "forecastDate rt lastDate index =
     setMonth rt lastDate (map_option (\<lambda>m. m + int index + 1) (getMonth rt lastDate))"

definition forecastPoint :: "runtime \<Rightarrow> int option \<Rightarrow> real \<Rightarrow> nat \<Rightarrow> error + DataPoint" where
  "forecastPoint rt lastDate v index =
     (case toISOString (forecastDate rt lastDate index) of
        Inl e \<Rightarrow> Inl e
      | Inr s \<Rightarrow> Inr \<lparr> date = s, actual = None, forecast = Some v \<rparr>)"

text \<open>\<open>xs.map((value, index) => ...)\<close>, from the index \<open>i\<close> on; an exception ends it.\<close>

fun mapIndexed :: "('a \<Rightarrow> nat \<Rightarrow> error + 'b) \<Rightarrow> 'a list \<Rightarrow> nat \<Rightarrow> error + 'b list" where
  "mapIndexed f [] i = Inr []"
| "mapIndexed f (x # xs) i =
     (case f x i of
        Inl e \<Rightarrow> Inl e
      | Inr y \<Rightarrow> (case mapIndexed f xs (Suc i) of Inl e \<Rightarrow> Inl e | Inr ys \<Rightarrow> Inr (y # ys)))"

definition convertResponseToDataPoints :: "runtime \<Rightarrow> forecast_response \<Rightarrow> DataPoint list \<Rightarrow> error + DataPoint list" where
  "convertResponseToDataPoints rt response historicalData =
     (case elementAt historicalData (int (length historicalData) - 1) of
        None \<Rightarrow> Inl (TypeError ''Cannot read properties of undefined (reading date)'')
      | Some lastPoint \<Rightarrow>
          (let lastDate = newDate rt (date lastPoint)
           in case predictions response of
                None \<Rightarrow> Inl (TypeError ''Cannot read properties of undefined (reading 0)'')
              | Some ps \<Rightarrow>
                  (case elementAt ps 0 of
                     None \<Rightarrow> Inl (TypeError ''Cannot read properties of undefined (reading mean)'')
                   | Some p \<Rightarrow>
                       (case mean p of
                          None \<Rightarrow> Inl (TypeError ''Cannot read properties of undefined (reading map)'')
                        | Some values \<Rightarrow> mapIndexed (forecastPoint rt lastDate) values 0))))"

text \<open>
  The module imports \<open>InvokeEndpointCommand\<close> from \<open>@aws-sdk/client-sagemaker\<close>, as it
  does the ten other commands.  That package has no such export (the class belongs to
  \<open>@aws-sdk/client-sagemaker-runtime\<close>), so the imported binding is \<open>undefined\<close> and
  \<open>new InvokeEndpointCommand(...)\<close> throws a \<open>TypeError\<close> once its argument has been built.
\<close>

definition newInvokeEndpointCommand :: "string \<Rightarrow> string \<Rightarrow> payload \<Rightarrow> error + command" where
  "newInvokeEndpointCommand name contentType body =
     Inl (TypeError ''InvokeEndpointCommand is not a constructor'')"

definition getForecastFromEndpoint ::
    "process_env \<Rightarrow> runtime \<Rightarrow> 's sdk \<Rightarrow> string \<Rightarrow> DataPoint list \<Rightarrow> int \<Rightarrow> 's world \<Rightarrow> (error + DataPoint list) \<times> 's world" where
  "getForecastFromEndpoint env rt sdk endpoint historicalData forecastHorizon =
     await (lift (getSageMakerClient env sdk)) (\<lambda>sageMakerClient.
       (let inputData = prepareInputData rt historicalData forecastHorizon
        in await (lift (newInvokeEndpointCommand endpoint ''application/json'' inputData)) (\<lambda>invoke.
           await (send invoke (sendInvokeEndpoint sdk endpoint ''application/json'' inputData)) (\<lambda>body.
           await (lift (parseBody sdk body)) (\<lambda>responseBody.
           lift (convertResponseToDataPoints rt responseBody historicalData))))))"

section \<open>The forecast-action route\<close>

text \<open>
  The parsed body of a request: \<open>action\<close> is \<open>None\<close> when it is missing or not a string
  (it then equals no \<open>case\<close> label), \<open>data\<close> is \<open>None\<close> when it is \<open>undefined\<close> or
  \<open>null\<close>.  A \<open>data\<close> object carries the fields that the actions read, with the types of
  the parameters they are passed to.  \<open>request.json()\<close> itself may throw.
\<close>

record request_data =
  data_historicalData :: "DataPoint list"
  data_jobName :: string
  data_endpointName :: string
  data_forecastHorizon :: int
  data_endpointConfigName :: string
  data_modelName :: string
  data_filename :: string
  data_contentType :: string

record request_body =
  action :: "string option"
  data :: "request_data option"

datatype response_body =
    JobCreated created_job
  | JobStatus job_status
  | Deployed deployment
  | EndpointStatusBody endpoint_status
  | ForecastBody "DataPoint list"
  | CleanedUp cleanup_result
  | UploadUrl string
  | ErrorBody string "string option"

record http_response =
  http_status :: nat
  http_body :: response_body

text \<open>\<open>NextResponse.json(b)\<close> and \<open>NextResponse.json(b, { status: n })\<close>\<close>

definition json :: "response_body \<Rightarrow> http_response" where
  "json b = \<lparr> http_status = 200, http_body = b \<rparr>"

definition jsonWithStatus :: "response_body \<Rightarrow> nat \<Rightarrow> http_response" where
  "jsonWithStatus b n = \<lparr> http_status = n, http_body = b \<rparr>"

text \<open>\<open>const { ... } = data\<close> throws when \<open>data\<close> is \<open>undefined\<close> or \<open>null\<close>.\<close>

fun destructure :: "request_data option \<Rightarrow> error + request_data" where
  "destructure None = Inl (TypeError ''Cannot destructure data as it is undefined'')"
| "destructure (Some d) = Inr d"

text \<open>The body of the \<open>try\<close> block of \<open>POST\<close>.\<close>

definition dispatch ::
    "process_env \<Rightarrow> runtime \<Rightarrow> 's sdk \<Rightarrow> error + request_body \<Rightarrow> 's world \<Rightarrow> (error + http_response) \<times> 's world" where
  "dispatch env rt sdk request =
     await (lift request) (\<lambda>body.
       if action body = Some ''create_job'' then
         await (lift (destructure (data body))) (\<lambda>d.
         await (createForecastingJob env sdk (data_historicalData d) None) (\<lambda>result.
         return (json (JobCreated result))))
       else if action body = Some ''get_job_status'' then
         await (lift (destructure (data body))) (\<lambda>d.
         await (getJobStatus env sdk (data_jobName d)) (\<lambda>result.
         return (json (JobStatus result))))
       else if action body = Some ''deploy_model'' then
         await (lift (destructure (data body))) (\<lambda>d.
         await (deployBestModel env sdk (data_jobName d)) (\<lambda>deployResult.
         return (json (Deployed deployResult))))
       else if action body = Some ''get_endpoint_status'' then
         await (lift (destructure (data body))) (\<lambda>d.
         await (getEndpointStatus env sdk (data_endpointName d)) (\<lambda>result.
         return (json (EndpointStatusBody result))))
       else if action body = Some ''get_forecast'' then
         await (lift (destructure (data body))) (\<lambda>d.
         await (getForecastFromEndpoint env rt sdk (data_endpointName d) (data_historicalData d)
                  (data_forecastHorizon d)) (\<lambda>result.
         return (json (ForecastBody result))))
       else if action body = Some ''cleanup_resources'' then
         await (lift (destructure (data body))) (\<lambda>d.
         await (cleanupSageMakerResources env sdk (data_endpointName d) (data_endpointConfigName d)
                  (data_modelName d)) (\<lambda>cleanupResult.
         return (json (CleanedUp cleanupResult))))
       else if action body = Some ''get_upload_url'' then
         await (lift (destructure (data body))) (\<lambda>d.
         await (outside (getPresignedUploadUrl sdk (data_filename d) (data_contentType d))) (\<lambda>uploadUrl.
         return (json (UploadUrl uploadUrl))))
       else return (jsonWithStatus (ErrorBody ''Invalid action'' None) 400))"

text \<open>The \<open>catch\<close> block of \<open>POST\<close>.\<close>

definition caught :: "error \<Rightarrow> http_response" where
  "caught e =
     jsonWithStatus
       (ErrorBody ''Failed to process your request''
          (Some (if instanceofError e then message e else ''Unknown error'')))
       500"

definition POST :: "process_env \<Rightarrow> runtime \<Rightarrow> 's sdk \<Rightarrow> error + request_body \<Rightarrow> 's world \<Rightarrow> http_response \<times> 's world" where
  "POST env rt sdk request w =
     (case dispatch env rt sdk request w of
        (Inl e, w') \<Rightarrow> (caught e, w')
      | (Inr response, w') \<Rightarrow> (response, w'))"

section \<open>A concrete process\<close>

text \<open>
  A production process whose outside world counts the requests it has served.  Every
  SageMaker call succeeds; the parameter store fails on the very first request it gets
  and answers from then on; the clock stands at 1700000000000; a number is rendered by
  its integer part.
\<close>

definition demo_env :: process_env where
  "demo_env =
     \<lparr> NODE_ENV = Some ''production'', ENVIRONMENT = None, DATA_BUCKET = None,
       SAGEMAKER_ROLE_ARN = None, AWS_PROFILE = None \<rparr>"

definition demo_config :: AppConfig where
  "demo_config =
     \<lparr> dataBucket = Some (JString ''retail-data''),
       sageMakerRoleArn = Some (JString ''arn:aws:iam::1:role/forecast''),
       region = Some (JString ''us-east-1''), environment = Some (JString ''prod'') \<rparr>"

definition demo_candidate :: candidate where
  "demo_candidate =
     \<lparr> CandidateName = Some ''candidate-1'',
       InferenceContainers =
         Some [\<lparr> ModelDataUrl = Some ''s3://retail-data/output/model.tar.gz'',
                 Image = Some ''forecast-image'', Environment = None \<rparr>] \<rparr>"

definition demo_sdk :: "nat sdk" where
  "demo_sdk =
     \<lparr> sendCreateAutoMLJob = (\<lambda>input s. (Inr (Some ''arn:aws:sagemaker:job''), Suc s)),
       sendDescribeAutoMLJob =
         (\<lambda>name s. (Inr \<lparr> AutoMLJobStatus = Some ''Completed'', EndTime = None,
                           FailureReason = None \<rparr>, Suc s)),
       sendListCandidates = (\<lambda>name s. (Inr (Some [demo_candidate]), Suc s)),
       sendDescribeEndpoint =
         (\<lambda>name s. (Inr \<lparr> EndpointStatus = Some ''InService'', EndpointFailureReason = None,
                           CreationTime = None, LastModifiedTime = None \<rparr>, Suc s)),
       sendInvokeEndpoint = (\<lambda>name contentType body s. (Inr ''{}'', Suc s)),
       sendVoid = (\<lambda>c s. (Inr (), Suc s)),
       ssmSend =
         (\<lambda>name s. (if s = 0 then Inl (ServiceError ''ThrottlingException'')
                      else Inr (Some ''{}''), Suc s)),
       uploadDatasetToS3 = (\<lambda>h s. (Inr ''s3://retail-data/datasets/history.csv'', Suc s)),
       getPresignedUploadUrl = (\<lambda>filename contentType s. (Inr ''https://upload'', Suc s)),
       Date_now = (\<lambda>s. 1700000000000),
       parseConfig = (\<lambda>v. Inr (ParsedTruthy demo_config)),
       parseBody = (\<lambda>b. Inr \<lparr> predictions = Some [\<lparr> mean = Some [1, 2, 3] \<rparr>] \<rparr>),
       Number_toString = (\<lambda>x. show_int \<lfloor>x\<rfloor>),
       newClient = None \<rparr>"

definition demo_world :: "nat world" where
  "demo_world = \<lparr> remote = 0, cachedConfig = None, ssmCalls = [], calls = [] \<rparr>"

text \<open>The same collaborators, with a job that has no candidate.\<close>

definition demo_sdk_no_candidate :: "nat sdk" where
  "demo_sdk_no_candidate = demo_sdk \<lparr> sendListCandidates := (\<lambda>name s. (Inr (Some []), Suc s)) \<rparr>"

text \<open>
  Collaborators whose outside world is the list of the SageMaker commands received so
  far, oldest first: the job is still in progress, and every command is accepted but the
  deletion of an endpoint configuration.
\<close>

fun recorded_void :: "command \<Rightarrow> command list \<Rightarrow> (error + unit) \<times> command list" where
  "recorded_void (DeleteEndpointConfigCommand n) s =
     (Inl (ServiceError ''ValidationException''), s @ [DeleteEndpointConfigCommand n])"
| "recorded_void c s = (Inr (), s @ [c])"

definition recording_sdk :: "command list sdk" where
  "recording_sdk =
     \<lparr> sendCreateAutoMLJob =
         (\<lambda>input s. (Inr (Some ''arn:aws:sagemaker:job''), s @ [CreateAutoMLJobCommand input])),
       sendDescribeAutoMLJob =
         (\<lambda>name s. (Inr \<lparr> AutoMLJobStatus = Some ''InProgress'', EndTime = None,
                           FailureReason = None \<rparr>, s @ [DescribeAutoMLJobCommand name])),
       sendListCandidates =
         (\<lambda>name s. (Inr (Some [demo_candidate]), s @ [ListCandidatesForAutoMLJobCommand name])),
       sendDescribeEndpoint =
         (\<lambda>name s. (Inr \<lparr> EndpointStatus = Some ''InService'', EndpointFailureReason = None,
                           CreationTime = None, LastModifiedTime = None \<rparr>,
                     s @ [DescribeEndpointCommand name])),
       sendInvokeEndpoint =
         (\<lambda>name contentType body s. (Inr ''{}'', s @ [InvokeEndpointCommand name contentType body])),
       sendVoid = recorded_void,
       ssmSend = (\<lambda>name s. (Inr None, s)),
       uploadDatasetToS3 = (\<lambda>h s. (Inr ''s3://retail-data/datasets/history.csv'', s)),
       getPresignedUploadUrl = (\<lambda>filename contentType s. (Inr ''https://upload'', s)),
       Date_now = (\<lambda>s. 1700000000000),
       parseConfig = (\<lambda>v. Inr (ParsedTruthy demo_config)),
       parseBody = (\<lambda>b. Inr \<lparr> predictions = Some [\<lparr> mean = Some [1, 2, 3] \<rparr>] \<rparr>),
       Number_toString = (\<lambda>x. show_int \<lfloor>x\<rfloor>),
       newClient = None \<rparr>"

definition recording_world :: "command list world" where
  "recording_world = \<lparr> remote = [], cachedConfig = None, ssmCalls = [], calls = [] \<rparr>"

text \<open>
  The same collaborators as in the first process, with a stored configuration that parses
  to \<open>0\<close>, and with a parameter store that answers at once.
\<close>

definition demo_sdk_zero :: "nat sdk" where
  "demo_sdk_zero =
     demo_sdk \<lparr> ssmSend := (\<lambda>name s. (Inr (Some ''0''), Suc s)),
                parseConfig := (\<lambda>v. Inr ParsedFalsy) \<rparr>"

text \<open>Endpoint responses: three values, and a single one.\<close>

definition demo_response :: forecast_response where
  "demo_response = \<lparr> predictions = Some [\<lparr> mean = Some [1, 2, 3] \<rparr>] \<rparr>"

definition demo_response_short :: forecast_response where
  "demo_response_short = \<lparr> predictions = Some [\<lparr> mean = Some [5] \<rparr>] \<rparr>"

text \<open>
  A runtime in UTC whose \<open>Date_parse\<close> reads the date-only form \<open>YYYY-MM-DD\<close> (midnight
  UTC, as ECMA-262 has it) and takes every other string for an invalid date.
\<close>

definition digitValue :: "char \<Rightarrow> int option" where
  "digitValue c =
     (let n = (of_char c :: nat) in if 48 \<le> n \<and> n \<le> 57 then Some (int n - 48) else None)"

fun number :: "string \<Rightarrow> int \<Rightarrow> int option" where
  "number [] acc = Some acc"
| "number (c # cs) acc =
     (case digitValue c of None \<Rightarrow> None | Some v \<Rightarrow> number cs (10 * acc + v))"

definition parseDateOnly :: "string \<Rightarrow> int option" where
  "parseDateOnly s =
     (if length s = 10 \<and> s ! 4 = CHR ''-'' \<and> s ! 7 = CHR ''-'' then
        (case (number (take 4 s) 0, number (take 2 (drop 5 s)) 0, number (drop 8 s) 0) of
           (Some y, Some m, Some d) \<Rightarrow>
             (if 1 \<le> m \<and> m \<le> 12 \<and> 1 \<le> d \<and> d \<le> 31 then
                Some (MakeDate (MakeDay y (m - 1) d) 0)
              else None)
         | _ \<Rightarrow> None)
      else None)"

definition demo_runtime :: runtime where
  "demo_runtime = \<lparr> Date_parse = parseDateOnly, LocalTZA = (\<lambda>t isUTC. 0) \<rparr>"

text \<open>The same runtime in a time zone five hours behind UTC all year (Bogota).\<close>

definition demo_runtime_bogota :: runtime where
  "demo_runtime_bogota = \<lparr> Date_parse = parseDateOnly, LocalTZA = (\<lambda>t isUTC. - 18000000) \<rparr>"

text \<open>
  The same runtime in New York, by the rules of 2024: five hours behind UTC, and four
  from 10 March, 7:00 UTC, when the clocks go from 2:00 to 3:00, until 3 November, 6:00
  UTC, when they go from 2:00 back to 1:00.  A local time that the clocks skip or show
  twice is read with the offset before the change, as ECMA-262 has it.
\<close>

definition demo_runtime_new_york :: runtime where
  "demo_runtime_new_york =
     \<lparr> Date_parse = parseDateOnly,
       LocalTZA =
         (\<lambda>t isUTC.
            if isUTC then (if 1710054000000 \<le> t \<and> t < 1730613600000 then - 14400000 else - 18000000)
            else (if 1710039600000 \<le> t \<and> t < 1730599200000 then - 14400000 else - 18000000)) \<rparr>"

definition demo_history :: "DataPoint list" where
  "demo_history =
     [\<lparr> date = ''2024-01-01'', actual = Some 10, forecast = None \<rparr>,
      \<lparr> date = ''2024-02-01'', actual = Some 12, forecast = None \<rparr>]"

definition demo_history_month_end :: "DataPoint list" where
  "demo_history_month_end = [\<lparr> date = ''2024-01-31'', actual = Some 10, forecast = None \<rparr>]"

text \<open>A request body for the route.\<close>

definition demo_data :: request_data where
  "demo_data =
     \<lparr> data_historicalData = demo_history, data_jobName = ''retail-forecast-1700000000000'',
       data_endpointName = ''retail-forecast-1700000000000-endpoint'', data_forecastHorizon = 3,
       data_endpointConfigName = ''retail-forecast-1700000000000-config'',
       data_modelName = ''retail-forecast-1700000000000-model'',
       data_filename = ''history.csv'', data_contentType = ''text/csv'' \<rparr>"

section \<open>Properties of getConfig\<close>

lemma getConfig_never_throws: "\<exists>c. fst (getConfig env sdk w) = Inr c"
  by (auto simp: getConfig_def split: option.splits prod.splits sum.splits)

lemma getConfig_calls: "getConfig env sdk w = (r, w') \<Longrightarrow> calls w' = calls w"
  by (auto simp: getConfig_def fetchConfig_def Let_def
           split: option.splits prod.splits sum.splits if_splits parsed.splits)






text \<open>
  Claim C6.  When the fetch from the parameter store throws or returns no value
  (\<open>undefined\<close> or the empty string), \<open>getConfig\<close> returns the default configuration and
  caches nothing; and no call of \<open>getConfig\<close> ever throws.
\<close>

theorem getConfig_falls_back_to_default:
  assumes "cachedConfig w = None" and "NODE_ENV env = Some ''production''"
    and "ssmSend sdk (parameterName env) (remote w) = (r, s')"
    and "(\<exists>e. r = Inl e) \<or> r = Inr None \<or> r = Inr (Some [])"
  shows "getConfig env sdk w =
           (Inr (Some (defaultConfig env)),
            w\<lparr>remote := s', ssmCalls := ssmCalls w @ [parameterName env]\<rparr>)
         \<and> (\<forall>env' (sdk' :: 's sdk) w'. \<exists>c. fst (getConfig env' sdk' w') = Inr c)"
proof
  show "getConfig env sdk w =
           (Inr (Some (defaultConfig env)),
            w\<lparr>remote := s', ssmCalls := ssmCalls w @ [parameterName env]\<rparr>)"
    using assms by (auto simp: getConfig_def fetchConfig_def Let_def)
  show "\<forall>env' (sdk' :: 's sdk) w'. \<exists>c. fst (getConfig env' sdk' w') = Inr c"
    by (simp add: getConfig_never_throws)
qed

theorem getConfig_falls_back_to_default_witness:
  "cachedConfig demo_world = None \<and> NODE_ENV demo_env = Some ''production''
   \<and> ssmSend demo_sdk (parameterName demo_env) (remote demo_world) = (Inl (ServiceError ''ThrottlingException''), 1)
   \<and> getConfig demo_env demo_sdk demo_world =
       (Inr (Some (defaultConfig demo_env)),
        demo_world\<lparr>remote := 1, ssmCalls := ssmCalls demo_world @ [parameterName demo_env]\<rparr>)"
proof -
  have 1: "cachedConfig demo_world = None" by (simp add: demo_world_def)
  have 2: "NODE_ENV demo_env = Some ''production''" by (simp add: demo_env_def)
  have 3: "ssmSend demo_sdk (parameterName demo_env) (remote demo_world) = (Inl (ServiceError ''ThrottlingException''), 1)"
    by (simp add: demo_sdk_def demo_world_def)
  have 4: "(\<exists>e. (Inl (ServiceError ''ThrottlingException'') :: error + string option) = Inl e) \<or>
     (Inl (ServiceError ''ThrottlingException'') :: error + string option) = Inr None \<or>
     (Inl (ServiceError ''ThrottlingException'') :: error + string option) = Inr (Some [])" by simp
  have 5: "getConfig demo_env demo_sdk demo_world =
       (Inr (Some (defaultConfig demo_env)),
        demo_world\<lparr>remote := 1, ssmCalls := ssmCalls demo_world @ [parameterName demo_env]\<rparr>)"
    by (rule conjunct1 [OF getConfig_falls_back_to_default [OF 1 2 3 4]])
  from 1 2 3 5 show ?thesis by (intro conjI)
qed

section \<open>Sequencing lemmas\<close>

lemma await_eq_Inr:
  "await m k w = (Inr b, w') \<longleftrightarrow> (\<exists>a w1. m w = (Inr a, w1) \<and> k a w1 = (Inr b, w'))"
  by (auto simp: await_def split: prod.splits sum.splits)

lemma lift_eq: "lift r w = (x, w') \<longleftrightarrow> r = x \<and> w' = w"
  by (auto simp: lift_def)

lemma return_eq: "return a w = (x, w') \<longleftrightarrow> x = Inr a \<and> w' = w"
  by (auto simp: return_def)

lemma send_eq:
  "send c f w = (r, w') \<longleftrightarrow>
     (\<exists>s'. f (remote w) = (r, s') \<and> w' = w\<lparr>remote := s', calls := calls w @ [(c, outcome r)]\<rparr>)"
  by (auto simp: send_def split: prod.splits)

lemma outside_eq:
  "outside f w = (r, w') \<longleftrightarrow> (\<exists>s'. f (remote w) = (r, s') \<and> w' = w\<lparr>remote := s'\<rparr>)"
  by (auto simp: outside_def split: prod.splits)

lemma getSageMakerClient_ok: "newClient sdk = None \<Longrightarrow> \<exists>c. getSageMakerClient env sdk = Inr c"
  by (auto simp: getSageMakerClient_def Let_def split: option.splits)

lemma getSageMakerClient_fails: "newClient sdk = Some e \<Longrightarrow> getSageMakerClient env sdk = Inl e"
  by (auto simp: getSageMakerClient_def Let_def split: option.splits)

lemma property_Inr: "property c f n = Inr v \<Longrightarrow> \<exists>cfg. c = Some cfg \<and> v = f cfg"
  by (cases c) auto

section \<open>Properties of deployBestModel\<close>



text \<open>
  Claim C3.  When the enumeration returns no candidate (a missing or empty list), or a
  first candidate without a name, \<open>deployBestModel\<close> throws the error
  \<open>No candidates found for the job\<close> (the error the specification calls
  NoCandidateAvailable), and the only call it has sent is the enumeration: no model, no
  endpoint configuration and no endpoint is created.
\<close>

theorem deployBestModel_no_candidate:
  assumes "newClient sdk = None"
    and "getConfig env sdk w = (cfg, w1)"
    and "sendListCandidates sdk job (remote w1) = (Inr cs, s2)"
    and "first cs = None \<or> (\<exists>c. first cs = Some c \<and> (CandidateName c = None \<or> CandidateName c = Some []))"
  shows "deployBestModel env sdk job w =
           (Inl (Error ''No candidates found for the job''),
            w1\<lparr>remote := s2, calls := calls w @ [(ListCandidatesForAutoMLJobCommand job, None)]\<rparr>)"
proof -
  obtain cl where cl: "getSageMakerClient env sdk = Inr cl"
    using getSageMakerClient_ok [OF assms(1)] by blast
  obtain c where c: "cfg = Inr c"
    using getConfig_never_throws [of env sdk w] assms(2) by auto
  have calls: "calls w1 = calls w" by (rule getConfig_calls [OF assms(2)])
  have best: "bestCandidateOf cs = Inl (Error ''No candidates found for the job'')"
    using assms(4) by (auto simp: bestCandidateOf_def)
  show ?thesis
    unfolding deployBestModel_def
    by (simp add: await_def lift_def cl assms(2) c send_def assms(3) best calls)
qed

lemma demo_no_candidate:
  "getConfig demo_env demo_sdk_no_candidate demo_world =
     (Inr (Some (defaultConfig demo_env)),
      \<lparr> remote = 1, cachedConfig = None, ssmCalls = [''/retail-forecasting/prod/config''], calls = [] \<rparr>)"
  by (simp add: getConfig_def fetchConfig_def parameterName_def demo_env_def demo_sdk_no_candidate_def
        demo_sdk_def demo_world_def)

theorem deployBestModel_no_candidate_witness:
  "newClient demo_sdk_no_candidate = None
   \<and> sendListCandidates demo_sdk_no_candidate ''retail-forecast-1700000000000'' 1 = (Inr (Some []), 2)
   \<and> deployBestModel demo_env demo_sdk_no_candidate ''retail-forecast-1700000000000'' demo_world =
       (Inl (Error ''No candidates found for the job''),
        \<lparr> remote = 2, cachedConfig = None, ssmCalls = [''/retail-forecasting/prod/config''],
          calls = [(ListCandidatesForAutoMLJobCommand ''retail-forecast-1700000000000'', None)] \<rparr>)"
proof -
  have 1: "newClient demo_sdk_no_candidate = None"
    by (simp add: demo_sdk_no_candidate_def demo_sdk_def)
  have 3: "sendListCandidates demo_sdk_no_candidate ''retail-forecast-1700000000000''
             (remote \<lparr> remote = 1, cachedConfig = None,
                       ssmCalls = [''/retail-forecasting/prod/config''], calls = [] \<rparr>) =
           (Inr (Some []), 2)"
    by (simp add: demo_sdk_no_candidate_def demo_sdk_def)
  have 4: "first (Some ([] :: candidate list)) = None \<or>
           (\<exists>c. first (Some []) = Some c \<and> (CandidateName c = None \<or> CandidateName c = Some []))"
    by simp
  from deployBestModel_no_candidate [OF 1 demo_no_candidate 3 4] 1 3 show ?thesis
    by (simp add: demo_world_def)
qed

section \<open>Properties of cleanupSageMakerResources\<close>

text \<open>
  Claim C4.  One invocation of \<open>cleanupSageMakerResources\<close> sends the deletion of the
  endpoint to the vendor first; only when the vendor has accepted it, the deletion of the
  endpoint configuration, on the state the first deletion left; and only when that has
  been accepted too, the deletion of the model.  The first failure is thrown to the
  caller and nothing more is sent: the state of the outside world is then the one the
  failed call left.  (When no client can be built, nothing is sent at all.)  Here
  \<open>r1\<close>, \<open>r2\<close> and \<open>r3\<close> name the vendor's answers to the three deletions in this order.
\<close>

theorem cleanup_order:
  assumes "sendVoid sdk (DeleteEndpointCommand e) (remote w) = (r1, s1)"
    and "sendVoid sdk (DeleteEndpointConfigCommand c) s1 = (r2, s2)"
    and "sendVoid sdk (DeleteModelCommand m) s2 = (r3, s3)"
  shows "cleanupSageMakerResources env sdk e c m w =
    (case newClient sdk of
       Some err \<Rightarrow> (Inl err, w)
     | None \<Rightarrow>
        (case r1 of
           Inl err \<Rightarrow>
             (Inl err, w\<lparr>remote := s1, calls := calls w @ [(DeleteEndpointCommand e, Some err)]\<rparr>)
         | Inr u1 \<Rightarrow>
            (case r2 of
               Inl err \<Rightarrow>
                 (Inl err,
                  w\<lparr>remote := s2,
                    calls := calls w @ [(DeleteEndpointCommand e, None),
                                        (DeleteEndpointConfigCommand c, Some err)]\<rparr>)
             | Inr u2 \<Rightarrow>
                (case r3 of
                   Inl err \<Rightarrow>
                     (Inl err,
                      w\<lparr>remote := s3,
                        calls := calls w @ [(DeleteEndpointCommand e, None),
                                            (DeleteEndpointConfigCommand c, None),
                                            (DeleteModelCommand m, Some err)]\<rparr>)
                 | Inr u3 \<Rightarrow>
                     (Inr \<lparr> success = True, cleanup_message = ''Resources cleaned up successfully'' \<rparr>,
                      w\<lparr>remote := s3,
                        calls := calls w @ [(DeleteEndpointCommand e, None),
                                            (DeleteEndpointConfigCommand c, None),
                                            (DeleteModelCommand m, None)]\<rparr>)))))"
proof (cases "newClient sdk")
  case (Some err)
  then show ?thesis
    by (simp add: cleanupSageMakerResources_def await_def lift_def getSageMakerClient_fails)
next
  case None
  then obtain cl where cl: "getSageMakerClient env sdk = Inr cl"
    using getSageMakerClient_ok by blast
  show ?thesis
    by (simp add: cleanupSageMakerResources_def await_def lift_def send_def return_def cl None assms
          split: sum.splits)
qed

text \<open>
  At the vendor that records what it receives and refuses to delete the endpoint
  configuration: it has received the deletion of the endpoint and then that of the
  configuration, and never that of the model.
\<close>

theorem cleanup_order_witness:
  "sendVoid recording_sdk (DeleteEndpointCommand ''e'') (remote recording_world) =
     (Inr (), [DeleteEndpointCommand ''e''])
   \<and> sendVoid recording_sdk (DeleteEndpointConfigCommand ''c'') [DeleteEndpointCommand ''e''] =
     (Inl (ServiceError ''ValidationException''),
      [DeleteEndpointCommand ''e'', DeleteEndpointConfigCommand ''c''])
   \<and> cleanupSageMakerResources demo_env recording_sdk ''e'' ''c'' ''m'' recording_world =
     (Inl (ServiceError ''ValidationException''),
      \<lparr> remote = [DeleteEndpointCommand ''e'', DeleteEndpointConfigCommand ''c''],
        cachedConfig = None, ssmCalls = [],
        calls = [(DeleteEndpointCommand ''e'', None),
                 (DeleteEndpointConfigCommand ''c'', Some (ServiceError ''ValidationException''))] \<rparr>)"
proof -
  have 1: "sendVoid recording_sdk (DeleteEndpointCommand ''e'') (remote recording_world) =
     (Inr (), [DeleteEndpointCommand ''e''])"
    by (simp add: recording_sdk_def recording_world_def)
  have 2: "sendVoid recording_sdk (DeleteEndpointConfigCommand ''c'') [DeleteEndpointCommand ''e''] =
     (Inl (ServiceError ''ValidationException''),
      [DeleteEndpointCommand ''e'', DeleteEndpointConfigCommand ''c''])"
    by (simp add: recording_sdk_def)
  have 3: "sendVoid recording_sdk (DeleteModelCommand ''m'')
             [DeleteEndpointCommand ''e'', DeleteEndpointConfigCommand ''c''] =
     (Inr (), [DeleteEndpointCommand ''e'', DeleteEndpointConfigCommand ''c'', DeleteModelCommand ''m''])"
    by (simp add: recording_sdk_def)
  have n: "newClient recording_sdk = None" by (simp add: recording_sdk_def)
  have run: "cleanupSageMakerResources demo_env recording_sdk ''e'' ''c'' ''m'' recording_world =
     (Inl (ServiceError ''ValidationException''),
      \<lparr> remote = [DeleteEndpointCommand ''e'', DeleteEndpointConfigCommand ''c''],
        cachedConfig = None, ssmCalls = [],
        calls = [(DeleteEndpointCommand ''e'', None),
                 (DeleteEndpointConfigCommand ''c'', Some (ServiceError ''ValidationException''))] \<rparr>)"
    using cleanup_order [OF 1 2 3, of demo_env] by (simp add: n recording_world_def)
  from 1 2 run show ?thesis by (intro conjI)
qed

section \<open>Properties of createForecastingJob\<close>

text \<open>
  Claim C7.  When \<open>createForecastingJob\<close> succeeds, the configuration it resolved is not
  \<open>null\<close>, the dataset was staged, and the job name is \<open>retail-forecast-\<close> followed by the
  clock's milliseconds read after the staging.  Exactly one SageMaker call was sent, on
  the state the staging left: a job creation with problem type \<open>Forecasting\<close>, at most 10
  candidates and 3600 seconds per training job, the staged dataset as input, the target
  column, the output path \<open>s3://\<close> bucket \<open>/output/\<close> and the role, both as the resolved
  configuration has them (a property it lacks is \<open>undefined\<close>).  The result carries the
  job name and the ARN the vendor returned, and the outside world is as that call left it.
\<close>

theorem createForecastingJob_request:
  assumes "createForecastingJob env sdk historicalData targetColumn w = (Inr r, w')"
  shows "\<exists>cfg w1 datasetPath s2 s3.
           getConfig env sdk w = (Inr (Some cfg), w1)
         \<and> uploadDatasetToS3 sdk historicalData (remote w1) = (Inr datasetPath, s2)
         \<and> jobName r = ''retail-forecast-'' @ show_int (Date_now sdk s2)
         \<and> sendCreateAutoMLJob sdk
              \<lparr> AutoMLJobName = jobName r, ProblemType = ''Forecasting'',
                AutoMLJobConfig = \<lparr> MaxCandidates = 10, MaxRuntimePerTrainingJobInSeconds = 3600 \<rparr>,
                InputDataConfig =
                  [\<lparr> S3DataType = ''S3Prefix'', S3Uri = datasetPath,
                     TargetAttributeName = (case targetColumn of None \<Rightarrow> ''value'' | Some c \<Rightarrow> c) \<rparr>],
                S3OutputPath = ''s3://'' @ template (Number_toString sdk) (dataBucket cfg) @ ''/output/'',
                RoleArn = sageMakerRoleArn cfg \<rparr> s2 = (Inr (jobArn r), s3)
         \<and> w' = w1\<lparr>remote := s3, calls := calls w @
              [(CreateAutoMLJobCommand
                 \<lparr> AutoMLJobName = jobName r, ProblemType = ''Forecasting'',
                AutoMLJobConfig = \<lparr> MaxCandidates = 10, MaxRuntimePerTrainingJobInSeconds = 3600 \<rparr>,
                InputDataConfig =
                  [\<lparr> S3DataType = ''S3Prefix'', S3Uri = datasetPath,
                     TargetAttributeName = (case targetColumn of None \<Rightarrow> ''value'' | Some c \<Rightarrow> c) \<rparr>],
                S3OutputPath = ''s3://'' @ template (Number_toString sdk) (dataBucket cfg) @ ''/output/'',
                RoleArn = sageMakerRoleArn cfg \<rparr>, None)]\<rparr>"
proof -
  from assms obtain config w1 where g: "getConfig env sdk w = (Inr config, w1)"
    and rest1: "await (outside (uploadDatasetToS3 sdk historicalData)) (\<lambda>datasetPath.
      (\<lambda>w.
        (let jobName = JOB_PREFIX @ show_int (Date_now sdk (remote w)) in
         await (lift (getSageMakerClient env sdk)) (\<lambda>sageMakerClient.
         await (lift (property config dataBucket ''dataBucket'')) (\<lambda>bucket.
         await (lift (property config sageMakerRoleArn ''sageMakerRoleArn'')) (\<lambda>role.
           (let input =
              \<lparr> AutoMLJobName = jobName,
                ProblemType = ''Forecasting'',
                AutoMLJobConfig =
                  \<lparr> MaxCandidates = 10, MaxRuntimePerTrainingJobInSeconds = 3600 \<rparr>,
                InputDataConfig =
                  [\<lparr> S3DataType = ''S3Prefix'', S3Uri = datasetPath,
                     TargetAttributeName = (case targetColumn of None \<Rightarrow> ''value'' | Some c \<Rightarrow> c) \<rparr>],
                S3OutputPath = ''s3://'' @ template (Number_toString sdk) bucket @ ''/output/'',
                RoleArn = role \<rparr>
            in await (send (CreateAutoMLJobCommand input) (sendCreateAutoMLJob sdk input)) (\<lambda>response.
               return \<lparr> jobName = jobName, jobArn = response \<rparr>))))) w))) w1 = (Inr r, w')"
    unfolding createForecastingJob_def Let_def by (auto simp: await_eq_Inr)
  have c1: "calls w1 = calls w" by (rule getConfig_calls [OF g])
  from rest1 obtain datasetPath s2 where up: "uploadDatasetToS3 sdk historicalData (remote w1) = (Inr datasetPath, s2)"
    and rest2: "\<exists>cl bucket role.
         property config dataBucket ''dataBucket'' = Inr bucket
       \<and> property config sageMakerRoleArn ''sageMakerRoleArn'' = Inr role
       \<and> (\<exists>s3 arn. sendCreateAutoMLJob sdk
             \<lparr> AutoMLJobName = JOB_PREFIX @ show_int (Date_now sdk s2),
               ProblemType = ''Forecasting'',
               AutoMLJobConfig = \<lparr> MaxCandidates = 10, MaxRuntimePerTrainingJobInSeconds = 3600 \<rparr>,
               InputDataConfig =
                 [\<lparr> S3DataType = ''S3Prefix'', S3Uri = datasetPath,
                    TargetAttributeName = (case targetColumn of None \<Rightarrow> ''value'' | Some c \<Rightarrow> c) \<rparr>],
               S3OutputPath = ''s3://'' @ template (Number_toString sdk) bucket @ ''/output/'',
               RoleArn = role \<rparr> s2 = (Inr arn, s3)
           \<and> r = \<lparr> jobName = JOB_PREFIX @ show_int (Date_now sdk s2), jobArn = arn \<rparr>
           \<and> w' = w1\<lparr>remote := s3, calls := calls w1 @
                [(CreateAutoMLJobCommand
                   \<lparr> AutoMLJobName = JOB_PREFIX @ show_int (Date_now sdk s2),
                     ProblemType = ''Forecasting'',
                     AutoMLJobConfig = \<lparr> MaxCandidates = 10, MaxRuntimePerTrainingJobInSeconds = 3600 \<rparr>,
                     InputDataConfig =
                       [\<lparr> S3DataType = ''S3Prefix'', S3Uri = datasetPath,
                          TargetAttributeName = (case targetColumn of None \<Rightarrow> ''value'' | Some c \<Rightarrow> c) \<rparr>],
                     S3OutputPath = ''s3://'' @ template (Number_toString sdk) bucket @ ''/output/'',
                     RoleArn = role \<rparr>, None)]\<rparr>)"
    by (auto simp: await_eq_Inr outside_eq lift_eq return_eq send_eq Let_def)
  from rest2 obtain bucket role s3 arn where
      pb: "property config dataBucket ''dataBucket'' = Inr bucket"
    and pr: "property config sageMakerRoleArn ''sageMakerRoleArn'' = Inr role"
    and sc: "sendCreateAutoMLJob sdk
             \<lparr> AutoMLJobName = JOB_PREFIX @ show_int (Date_now sdk s2),
               ProblemType = ''Forecasting'',
               AutoMLJobConfig = \<lparr> MaxCandidates = 10, MaxRuntimePerTrainingJobInSeconds = 3600 \<rparr>,
               InputDataConfig =
                 [\<lparr> S3DataType = ''S3Prefix'', S3Uri = datasetPath,
                    TargetAttributeName = (case targetColumn of None \<Rightarrow> ''value'' | Some c \<Rightarrow> c) \<rparr>],
               S3OutputPath = ''s3://'' @ template (Number_toString sdk) bucket @ ''/output/'',
               RoleArn = role \<rparr> s2 = (Inr arn, s3)"
    and r: "r = \<lparr> jobName = JOB_PREFIX @ show_int (Date_now sdk s2), jobArn = arn \<rparr>"
    and w': "w' = w1\<lparr>remote := s3, calls := calls w1 @
                [(CreateAutoMLJobCommand
                   \<lparr> AutoMLJobName = JOB_PREFIX @ show_int (Date_now sdk s2),
                     ProblemType = ''Forecasting'',
                     AutoMLJobConfig = \<lparr> MaxCandidates = 10, MaxRuntimePerTrainingJobInSeconds = 3600 \<rparr>,
                     InputDataConfig =
                       [\<lparr> S3DataType = ''S3Prefix'', S3Uri = datasetPath,
                          TargetAttributeName = (case targetColumn of None \<Rightarrow> ''value'' | Some c \<Rightarrow> c) \<rparr>],
                     S3OutputPath = ''s3://'' @ template (Number_toString sdk) bucket @ ''/output/'',
                     RoleArn = role \<rparr>, None)]\<rparr>"
    by blast
  from property_Inr [OF pb] obtain cfg where cfg: "config = Some cfg" and b: "bucket = dataBucket cfg"
    by blast
  from property_Inr [OF pr] cfg have ro: "role = sageMakerRoleArn cfg" by simp
  have n: "jobName r = ''retail-forecast-'' @ show_int (Date_now sdk s2)" and a: "jobArn r = arn"
    by (simp_all add: r JOB_PREFIX_def)
  show ?thesis
    apply (rule exI [of _ cfg], rule exI [of _ w1], rule exI [of _ datasetPath],
           rule exI [of _ s2], rule exI [of _ s3])
    using g up sc w' by (simp add: cfg n a b ro c1 r JOB_PREFIX_def)
qed

lemma sn: "show_int 1700000000000 = ''1700000000000''"
  by (simp add: show_int_def show_nat.simps digit_def)

lemma demo_create:
  "createForecastingJob demo_env demo_sdk demo_history None demo_world =
     (Inr \<lparr> jobName = ''retail-forecast-1700000000000'', jobArn = Some ''arn:aws:sagemaker:job'' \<rparr>,
      \<lparr> remote = 3, cachedConfig = None, ssmCalls = [''/retail-forecasting/prod/config''],
        calls =
          [(CreateAutoMLJobCommand
              \<lparr> AutoMLJobName = ''retail-forecast-1700000000000'', ProblemType = ''Forecasting'',
                AutoMLJobConfig = \<lparr> MaxCandidates = 10, MaxRuntimePerTrainingJobInSeconds = 3600 \<rparr>,
                InputDataConfig =
                  [\<lparr> S3DataType = ''S3Prefix'', S3Uri = ''s3://retail-data/datasets/history.csv'',
                     TargetAttributeName = ''value'' \<rparr>],
                S3OutputPath = ''s3://retail-forecasting-data-dev/output/'',
                RoleArn = Some (JString ''arn:aws:iam::123456789012:role/SageMakerExecutionRole-dev'') \<rparr>, None)] \<rparr>)"
  by (simp add: createForecastingJob_def await_def return_def lift_def outside_def send_def
        getConfig_def fetchConfig_def parameterName_def Let_def
        demo_env_def demo_sdk_def demo_world_def getSageMakerClient_def JOB_PREFIX_def sn defaultConfig_def)

text \<open>
  A run on the default configuration, and a run on a stored configuration that parses
  to \<open>0\<close>: its properties are \<open>undefined\<close>, and the job is created with them.
\<close>

lemma demo_create_zero:
  "createForecastingJob demo_env demo_sdk_zero demo_history None demo_world =
     (Inr \<lparr> jobName = ''retail-forecast-1700000000000'', jobArn = Some ''arn:aws:sagemaker:job'' \<rparr>,
      \<lparr> remote = 3, cachedConfig = None, ssmCalls = [''/retail-forecasting/prod/config''],
        calls =
          [(CreateAutoMLJobCommand
              \<lparr> AutoMLJobName = ''retail-forecast-1700000000000'', ProblemType = ''Forecasting'',
                AutoMLJobConfig = \<lparr> MaxCandidates = 10, MaxRuntimePerTrainingJobInSeconds = 3600 \<rparr>,
                InputDataConfig =
                  [\<lparr> S3DataType = ''S3Prefix'', S3Uri = ''s3://retail-data/datasets/history.csv'',
                     TargetAttributeName = ''value'' \<rparr>],
                S3OutputPath = ''s3://undefined/output/'',
                RoleArn = None \<rparr>, None)] \<rparr>)"
  by (simp add: createForecastingJob_def await_def return_def lift_def outside_def send_def
        getConfig_def fetchConfig_def parameterName_def Let_def noProperties_def
        demo_env_def demo_sdk_zero_def demo_sdk_def demo_world_def getSageMakerClient_def
        JOB_PREFIX_def sn)

theorem createForecastingJob_request_witness:
  "createForecastingJob demo_env demo_sdk demo_history None demo_world =
     (Inr \<lparr> jobName = ''retail-forecast-1700000000000'', jobArn = Some ''arn:aws:sagemaker:job'' \<rparr>,
      \<lparr> remote = 3, cachedConfig = None, ssmCalls = [''/retail-forecasting/prod/config''],
        calls =
          [(CreateAutoMLJobCommand
              \<lparr> AutoMLJobName = ''retail-forecast-1700000000000'', ProblemType = ''Forecasting'',
                AutoMLJobConfig = \<lparr> MaxCandidates = 10, MaxRuntimePerTrainingJobInSeconds = 3600 \<rparr>,
                InputDataConfig =
                  [\<lparr> S3DataType = ''S3Prefix'', S3Uri = ''s3://retail-data/datasets/history.csv'',
                     TargetAttributeName = ''value'' \<rparr>],
                S3OutputPath = ''s3://retail-forecasting-data-dev/output/'',
                RoleArn = Some (JString ''arn:aws:iam::123456789012:role/SageMakerExecutionRole-dev'') \<rparr>, None)] \<rparr>)
   \<and> createForecastingJob demo_env demo_sdk_zero demo_history None demo_world =
     (Inr \<lparr> jobName = ''retail-forecast-1700000000000'', jobArn = Some ''arn:aws:sagemaker:job'' \<rparr>,
      \<lparr> remote = 3, cachedConfig = None, ssmCalls = [''/retail-forecasting/prod/config''],
        calls =
          [(CreateAutoMLJobCommand
              \<lparr> AutoMLJobName = ''retail-forecast-1700000000000'', ProblemType = ''Forecasting'',
                AutoMLJobConfig = \<lparr> MaxCandidates = 10, MaxRuntimePerTrainingJobInSeconds = 3600 \<rparr>,
                InputDataConfig =
                  [\<lparr> S3DataType = ''S3Prefix'', S3Uri = ''s3://retail-data/datasets/history.csv'',
                     TargetAttributeName = ''value'' \<rparr>],
                S3OutputPath = ''s3://undefined/output/'',
                RoleArn = None \<rparr>, None)] \<rparr>)
   \<and> (\<exists>cfg w1. getConfig demo_env demo_sdk_zero demo_world = (Inr (Some cfg), w1)
         \<and> template (Number_toString demo_sdk_zero) (dataBucket cfg) = ''undefined'' \<and> sageMakerRoleArn cfg = None)
   \<and> ''retail-forecast-1700000000000'' = ''retail-forecast-'' @ show_int (Date_now demo_sdk 2)"
proof -
  have now: "Date_now demo_sdk 2 = 1700000000000" by (simp add: demo_sdk_def)
  have name: "''retail-forecast-1700000000000'' = ''retail-forecast-'' @ show_int (Date_now demo_sdk 2)"
    by (simp add: now sn)
  from createForecastingJob_request [OF demo_create_zero]
  obtain cfg w1 datasetPath s2 s3 where
      g: "getConfig demo_env demo_sdk_zero demo_world = (Inr (Some cfg), w1)"
    and w: "\<lparr> remote = 3, cachedConfig = None, ssmCalls = [''/retail-forecasting/prod/config''],
        calls =
          [(CreateAutoMLJobCommand
              \<lparr> AutoMLJobName = ''retail-forecast-1700000000000'', ProblemType = ''Forecasting'',
                AutoMLJobConfig = \<lparr> MaxCandidates = 10, MaxRuntimePerTrainingJobInSeconds = 3600 \<rparr>,
                InputDataConfig =
                  [\<lparr> S3DataType = ''S3Prefix'', S3Uri = ''s3://retail-data/datasets/history.csv'',
                     TargetAttributeName = ''value'' \<rparr>],
                S3OutputPath = ''s3://undefined/output/'',
                RoleArn = None \<rparr>, None)] \<rparr> =
         w1\<lparr>remote := s3, calls := calls demo_world @
              [(CreateAutoMLJobCommand
                 \<lparr> AutoMLJobName = ''retail-forecast-1700000000000'', ProblemType = ''Forecasting'',
                AutoMLJobConfig = \<lparr> MaxCandidates = 10, MaxRuntimePerTrainingJobInSeconds = 3600 \<rparr>,
                InputDataConfig =
                  [\<lparr> S3DataType = ''S3Prefix'', S3Uri = datasetPath,
                     TargetAttributeName = ''value'' \<rparr>],
                S3OutputPath = ''s3://'' @ template (Number_toString demo_sdk_zero) (dataBucket cfg) @ ''/output/'',
                RoleArn = sageMakerRoleArn cfg \<rparr>, None)]\<rparr>"
    by auto
  from w have "calls \<lparr> remote = (3::nat), cachedConfig = None, ssmCalls = [''/retail-forecasting/prod/config''],
        calls =
          [(CreateAutoMLJobCommand
              \<lparr> AutoMLJobName = ''retail-forecast-1700000000000'', ProblemType = ''Forecasting'',
                AutoMLJobConfig = \<lparr> MaxCandidates = 10, MaxRuntimePerTrainingJobInSeconds = 3600 \<rparr>,
                InputDataConfig =
                  [\<lparr> S3DataType = ''S3Prefix'', S3Uri = ''s3://retail-data/datasets/history.csv'',
                     TargetAttributeName = ''value'' \<rparr>],
                S3OutputPath = ''s3://undefined/output/'',
                RoleArn = None \<rparr>, None)] \<rparr> =
         calls (w1\<lparr>remote := s3, calls := calls demo_world @
              [(CreateAutoMLJobCommand
                 \<lparr> AutoMLJobName = ''retail-forecast-1700000000000'', ProblemType = ''Forecasting'',
                AutoMLJobConfig = \<lparr> MaxCandidates = 10, MaxRuntimePerTrainingJobInSeconds = 3600 \<rparr>,
                InputDataConfig =
                  [\<lparr> S3DataType = ''S3Prefix'', S3Uri = datasetPath,
                     TargetAttributeName = ''value'' \<rparr>],
                S3OutputPath = ''s3://'' @ template (Number_toString demo_sdk_zero) (dataBucket cfg) @ ''/output/'',
                RoleArn = sageMakerRoleArn cfg \<rparr>, None)]\<rparr>)"
    by (rule arg_cong)
  then have "template (Number_toString demo_sdk_zero) (dataBucket cfg) = ''undefined''" and "sageMakerRoleArn cfg = None"
    by (simp_all add: demo_world_def)
  with g have ex: "\<exists>cfg w1. getConfig demo_env demo_sdk_zero demo_world = (Inr (Some cfg), w1)
         \<and> template (Number_toString demo_sdk_zero) (dataBucket cfg) = ''undefined'' \<and> sageMakerRoleArn cfg = None"
    by blast
  from demo_create demo_create_zero ex name show ?thesis by (intro conjI)
qed

section \<open>Properties of getJobStatus\<close>

lemma first_Value: "nullable_of (first cs) = Value c \<longleftrightarrow> (\<exists>rest. cs = Some (c # rest))"
  by (cases cs rule: first.cases) auto

text \<open>
  Claim C8.  \<open>getJobStatus\<close> sends the description of the job to the vendor; \<open>r0\<close> names
  the vendor's answer and \<open>lr\<close> its answer to the enumeration of the candidates on the
  state the description left.  When the status fetched is \<open>Completed\<close> the enumeration is
  sent, the outside world is as the enumeration left it, and \<open>bestCandidate\<close> is the first
  candidate of the list as the vendor returned it (\<open>undefined\<close> when there is none).
  When the status is anything else the enumeration is not sent: the outside world is as
  the description left it, and \<open>bestCandidate\<close> is \<open>null\<close>.  So the result carries a
  candidate if and only if the status is \<open>Completed\<close> and the list has a first element.
\<close>

theorem getJobStatus_bestCandidate:
  assumes "sendDescribeAutoMLJob sdk job (remote w) = (r0, s1)"
    and "sendListCandidates sdk job s1 = (lr, s2)"
  shows "getJobStatus env sdk job w =
     (case newClient sdk of
        Some err \<Rightarrow> (Inl err, w)
      | None \<Rightarrow>
         (case r0 of
            Inl err \<Rightarrow>
              (Inl err, w\<lparr>remote := s1, calls := calls w @ [(DescribeAutoMLJobCommand job, Some err)]\<rparr>)
          | Inr resp \<Rightarrow>
              (if AutoMLJobStatus resp = Some ''Completed'' then
                 (case lr of
                    Inl err \<Rightarrow>
                      (Inl err,
                       w\<lparr>remote := s2,
                         calls := calls w @ [(DescribeAutoMLJobCommand job, None),
                                             (ListCandidatesForAutoMLJobCommand job, Some err)]\<rparr>)
                  | Inr cs \<Rightarrow>
                      (Inr \<lparr> jobName = job, status = AutoMLJobStatus resp,
                             bestCandidate = nullable_of (first cs),
                             endTime = EndTime resp, failureReason = FailureReason resp \<rparr>,
                       w\<lparr>remote := s2,
                         calls := calls w @ [(DescribeAutoMLJobCommand job, None),
                                             (ListCandidatesForAutoMLJobCommand job, None)]\<rparr>))
               else
                 (Inr \<lparr> jobName = job, status = AutoMLJobStatus resp, bestCandidate = Null,
                        endTime = EndTime resp, failureReason = FailureReason resp \<rparr>,
                  w\<lparr>remote := s1, calls := calls w @ [(DescribeAutoMLJobCommand job, None)]\<rparr>))))
   \<and> (\<forall>res c. fst (getJobStatus env sdk job w) = Inr res \<longrightarrow>
           (bestCandidate res = Value c \<longleftrightarrow>
              (\<exists>resp cs. r0 = Inr resp \<and> AutoMLJobStatus resp = Some ''Completed''
                 \<and> lr = Inr (Some (c # cs)))))"
proof -
  have run: "getJobStatus env sdk job w =
     (case newClient sdk of
        Some err \<Rightarrow> (Inl err, w)
      | None \<Rightarrow>
         (case r0 of
            Inl err \<Rightarrow>
              (Inl err, w\<lparr>remote := s1, calls := calls w @ [(DescribeAutoMLJobCommand job, Some err)]\<rparr>)
          | Inr resp \<Rightarrow>
              (if AutoMLJobStatus resp = Some ''Completed'' then
                 (case lr of
                    Inl err \<Rightarrow>
                      (Inl err,
                       w\<lparr>remote := s2,
                         calls := calls w @ [(DescribeAutoMLJobCommand job, None),
                                             (ListCandidatesForAutoMLJobCommand job, Some err)]\<rparr>)
                  | Inr cs \<Rightarrow>
                      (Inr \<lparr> jobName = job, status = AutoMLJobStatus resp,
                             bestCandidate = nullable_of (first cs),
                             endTime = EndTime resp, failureReason = FailureReason resp \<rparr>,
                       w\<lparr>remote := s2,
                         calls := calls w @ [(DescribeAutoMLJobCommand job, None),
                                             (ListCandidatesForAutoMLJobCommand job, None)]\<rparr>))
               else
                 (Inr \<lparr> jobName = job, status = AutoMLJobStatus resp, bestCandidate = Null,
                        endTime = EndTime resp, failureReason = FailureReason resp \<rparr>,
                  w\<lparr>remote := s1, calls := calls w @ [(DescribeAutoMLJobCommand job, None)]\<rparr>))))"
  proof (cases "newClient sdk")
    case (Some err)
    then show ?thesis
      by (simp add: getJobStatus_def await_def lift_def getSageMakerClient_fails)
  next
    case None
    then obtain cl where cl: "getSageMakerClient env sdk = Inr cl"
      using getSageMakerClient_ok by blast
    show ?thesis
      by (simp add: getJobStatus_def await_def lift_def send_def return_def cl None assms
            split: sum.splits)
  qed
  have iff: "(\<forall>res c. fst (getJobStatus env sdk job w) = Inr res \<longrightarrow>
           (bestCandidate res = Value c \<longleftrightarrow>
              (\<exists>resp cs. r0 = Inr resp \<and> AutoMLJobStatus resp = Some ''Completed''
                 \<and> lr = Inr (Some (c # cs)))))"
    unfolding run
    by (auto simp: first_Value split: option.splits sum.splits if_splits)
  from run iff show ?thesis by (intro conjI)
qed

text \<open>
  At the vendor that records what it receives, where the job is in progress: it has
  received the description only.  In the first process, where the job is completed: the
  description and the enumeration, and the result carries the first candidate.
\<close>

theorem getJobStatus_bestCandidate_witness:
  "sendDescribeAutoMLJob recording_sdk ''retail-forecast-1700000000000'' (remote recording_world) =
     (Inr \<lparr> AutoMLJobStatus = Some ''InProgress'', EndTime = None, FailureReason = None \<rparr>,
      [DescribeAutoMLJobCommand ''retail-forecast-1700000000000''])
   \<and> getJobStatus demo_env recording_sdk ''retail-forecast-1700000000000'' recording_world =
     (Inr \<lparr> jobName = ''retail-forecast-1700000000000'', status = Some ''InProgress'',
            bestCandidate = Null, endTime = None, failureReason = None \<rparr>,
      \<lparr> remote = [DescribeAutoMLJobCommand ''retail-forecast-1700000000000''],
        cachedConfig = None, ssmCalls = [],
        calls = [(DescribeAutoMLJobCommand ''retail-forecast-1700000000000'', None)] \<rparr>)
   \<and> sendDescribeAutoMLJob demo_sdk ''retail-forecast-1700000000000'' (remote demo_world) =
       (Inr \<lparr> AutoMLJobStatus = Some ''Completed'', EndTime = None, FailureReason = None \<rparr>, 1)
   \<and> sendListCandidates demo_sdk ''retail-forecast-1700000000000'' 1 = (Inr (Some [demo_candidate]), 2)
   \<and> getJobStatus demo_env demo_sdk ''retail-forecast-1700000000000'' demo_world =
     (Inr \<lparr> jobName = ''retail-forecast-1700000000000'', status = Some ''Completed'',
            bestCandidate = Value demo_candidate, endTime = None, failureReason = None \<rparr>,
      \<lparr> remote = 2, cachedConfig = None, ssmCalls = [],
        calls = [(DescribeAutoMLJobCommand ''retail-forecast-1700000000000'', None),
                 (ListCandidatesForAutoMLJobCommand ''retail-forecast-1700000000000'', None)] \<rparr>)
   \<and> bestCandidate (projr (fst (getJobStatus demo_env demo_sdk ''retail-forecast-1700000000000'' demo_world)))
       = Value demo_candidate"
proof -
  have a1: "sendDescribeAutoMLJob recording_sdk ''retail-forecast-1700000000000'' (remote recording_world) =
     (Inr \<lparr> AutoMLJobStatus = Some ''InProgress'', EndTime = None, FailureReason = None \<rparr>,
      [DescribeAutoMLJobCommand ''retail-forecast-1700000000000''])"
    by (simp add: recording_sdk_def recording_world_def)
  have a2: "sendListCandidates recording_sdk ''retail-forecast-1700000000000''
              [DescribeAutoMLJobCommand ''retail-forecast-1700000000000''] =
     (Inr (Some [demo_candidate]),
      [DescribeAutoMLJobCommand ''retail-forecast-1700000000000'',
       ListCandidatesForAutoMLJobCommand ''retail-forecast-1700000000000''])"
    by (simp add: recording_sdk_def)
  have an: "newClient recording_sdk = None" by (simp add: recording_sdk_def)
  have arun: "getJobStatus demo_env recording_sdk ''retail-forecast-1700000000000'' recording_world =
     (Inr \<lparr> jobName = ''retail-forecast-1700000000000'', status = Some ''InProgress'',
            bestCandidate = Null, endTime = None, failureReason = None \<rparr>,
      \<lparr> remote = [DescribeAutoMLJobCommand ''retail-forecast-1700000000000''],
        cachedConfig = None, ssmCalls = [],
        calls = [(DescribeAutoMLJobCommand ''retail-forecast-1700000000000'', None)] \<rparr>)"
    using conjunct1 [OF getJobStatus_bestCandidate [OF a1 a2, of demo_env]]
    by (simp add: an recording_world_def)
  have b1: "sendDescribeAutoMLJob demo_sdk ''retail-forecast-1700000000000'' (remote demo_world) =
       (Inr \<lparr> AutoMLJobStatus = Some ''Completed'', EndTime = None, FailureReason = None \<rparr>, 1)"
    by (simp add: demo_sdk_def demo_world_def)
  have b2: "sendListCandidates demo_sdk ''retail-forecast-1700000000000'' 1 = (Inr (Some [demo_candidate]), 2)"
    by (simp add: demo_sdk_def)
  have bn: "newClient demo_sdk = None" by (simp add: demo_sdk_def)
  have brun: "getJobStatus demo_env demo_sdk ''retail-forecast-1700000000000'' demo_world =
     (Inr \<lparr> jobName = ''retail-forecast-1700000000000'', status = Some ''Completed'',
            bestCandidate = Value demo_candidate, endTime = None, failureReason = None \<rparr>,
      \<lparr> remote = 2, cachedConfig = None, ssmCalls = [],
        calls = [(DescribeAutoMLJobCommand ''retail-forecast-1700000000000'', None),
                 (ListCandidatesForAutoMLJobCommand ''retail-forecast-1700000000000'', None)] \<rparr>)"
    using conjunct1 [OF getJobStatus_bestCandidate [OF b1 b2, of demo_env]]
    by (simp add: bn demo_world_def)
  have "\<forall>res c. fst (getJobStatus demo_env demo_sdk ''retail-forecast-1700000000000'' demo_world) = Inr res
          \<longrightarrow> (bestCandidate res = Value c \<longleftrightarrow> c = demo_candidate)"
    using conjunct2 [OF getJobStatus_bestCandidate [OF b1 b2, of demo_env]] by auto
  then have biff: "bestCandidate (projr (fst (getJobStatus demo_env demo_sdk
      ''retail-forecast-1700000000000'' demo_world))) = Value demo_candidate"
    by (simp add: brun)
  from a1 arun b1 b2 brun biff show ?thesis by (intro conjI)
qed

section \<open>Properties of the route\<close>


lemma dispatch_Inr: "request = Inr body \<Longrightarrow> dispatch env rt sdk request w = 
   (if action body = Some ''create_job'' then
         await (lift (destructure (data body))) (\<lambda>d.
         await (createForecastingJob env sdk (data_historicalData d) None) (\<lambda>result.
         return (json (JobCreated result))))
       else if action body = Some ''get_job_status'' then
         await (lift (destructure (data body))) (\<lambda>d.
         await (getJobStatus env sdk (data_jobName d)) (\<lambda>result.
         return (json (JobStatus result))))
       else if action body = Some ''deploy_model'' then
         await (lift (destructure (data body))) (\<lambda>d.
         await (deployBestModel env sdk (data_jobName d)) (\<lambda>deployResult.
         return (json (Deployed deployResult))))
       else if action body = Some ''get_endpoint_status'' then
         await (lift (destructure (data body))) (\<lambda>d.
         await (getEndpointStatus env sdk (data_endpointName d)) (\<lambda>result.
         return (json (EndpointStatusBody result))))
       else if action body = Some ''get_forecast'' then
         await (lift (destructure (data body))) (\<lambda>d.
         await (getForecastFromEndpoint env rt sdk (data_endpointName d) (data_historicalData d)
                  (data_forecastHorizon d)) (\<lambda>result.
         return (json (ForecastBody result))))
       else if action body = Some ''cleanup_resources'' then
         await (lift (destructure (data body))) (\<lambda>d.
         await (cleanupSageMakerResources env sdk (data_endpointName d) (data_endpointConfigName d)
                  (data_modelName d)) (\<lambda>cleanupResult.
         return (json (CleanedUp cleanupResult))))
       else if action body = Some ''get_upload_url'' then
         await (lift (destructure (data body))) (\<lambda>d.
         await (outside (getPresignedUploadUrl sdk (data_filename d) (data_contentType d))) (\<lambda>uploadUrl.
         return (json (UploadUrl uploadUrl))))
       else return (jsonWithStatus (ErrorBody ''Invalid action'' None) 400)) w"
  unfolding dispatch_def by (simp add: await_def lift_def)

text \<open>
  Claim C9.  A request whose body was read and whose action is none of the seven known
  ones is answered with status 400 and the body \<open>{error: "Invalid action"}\<close>, and nothing
  else happens.  A request whose operation throws is answered with status 500 and a body
  with the error text \<open>Failed to process your request\<close> and a \<open>details\<close> field, the
  message of the exception (\<open>Unknown error\<close> when the thrown value is not an \<open>Error\<close>).
  So is a request whose body cannot be read, or whose \<open>data\<close> is missing.
\<close>

theorem POST_errors:
  shows "(request = Inr body \<and>
          action body \<notin> Some ` {''create_job'', ''get_job_status'', ''deploy_model'',
             ''get_endpoint_status'', ''get_forecast'', ''cleanup_resources'', ''get_upload_url''}
          \<longrightarrow> POST env rt sdk request w =
                (\<lparr> http_status = 400, http_body = ErrorBody ''Invalid action'' None \<rparr>, w))
       \<and> (request = Inr body \<and> data body = Some d \<and>
            (action body = Some ''create_job''
               \<and> createForecastingJob env sdk (data_historicalData d) None w = (Inl e, w')
           \<or> action body = Some ''get_job_status''
               \<and> getJobStatus env sdk (data_jobName d) w = (Inl e, w')
           \<or> action body = Some ''deploy_model''
               \<and> deployBestModel env sdk (data_jobName d) w = (Inl e, w')
           \<or> action body = Some ''get_endpoint_status''
               \<and> getEndpointStatus env sdk (data_endpointName d) w = (Inl e, w')
           \<or> action body = Some ''get_forecast''
               \<and> getForecastFromEndpoint env rt sdk (data_endpointName d) (data_historicalData d)
                    (data_forecastHorizon d) w = (Inl e, w')
           \<or> action body = Some ''cleanup_resources''
               \<and> cleanupSageMakerResources env sdk (data_endpointName d) (data_endpointConfigName d)
                    (data_modelName d) w = (Inl e, w')
           \<or> action body = Some ''get_upload_url''
               \<and> outside (getPresignedUploadUrl sdk (data_filename d) (data_contentType d)) w = (Inl e, w'))
          \<longrightarrow> POST env rt sdk request w =
                (\<lparr> http_status = 500,
                   http_body = ErrorBody ''Failed to process your request''
                     (Some (if instanceofError e then message e else ''Unknown error'')) \<rparr>, w'))
       \<and> (request = Inl e \<or> (request = Inr body \<and> data body = None \<and>
             action body \<in> Some ` {''create_job'', ''get_job_status'', ''deploy_model'',
             ''get_endpoint_status'', ''get_forecast'', ''cleanup_resources'', ''get_upload_url''})
          \<longrightarrow> http_status (fst (POST env rt sdk request w)) = 500)"
proof (intro conjI impI)
  assume "request = Inr body \<and>
          action body \<notin> Some ` {''create_job'', ''get_job_status'', ''deploy_model'',
             ''get_endpoint_status'', ''get_forecast'', ''cleanup_resources'', ''get_upload_url''}"
  then show "POST env rt sdk request w =
                (\<lparr> http_status = 400, http_body = ErrorBody ''Invalid action'' None \<rparr>, w)"
    by (simp add: POST_def dispatch_Inr return_def jsonWithStatus_def)
next
  assume a: "request = Inr body \<and> data body = Some d \<and>
            (action body = Some ''create_job''
               \<and> createForecastingJob env sdk (data_historicalData d) None w = (Inl e, w')
           \<or> action body = Some ''get_job_status''
               \<and> getJobStatus env sdk (data_jobName d) w = (Inl e, w')
           \<or> action body = Some ''deploy_model''
               \<and> deployBestModel env sdk (data_jobName d) w = (Inl e, w')
           \<or> action body = Some ''get_endpoint_status''
               \<and> getEndpointStatus env sdk (data_endpointName d) w = (Inl e, w')
           \<or> action body = Some ''get_forecast''
               \<and> getForecastFromEndpoint env rt sdk (data_endpointName d) (data_historicalData d)
                    (data_forecastHorizon d) w = (Inl e, w')
           \<or> action body = Some ''cleanup_resources''
               \<and> cleanupSageMakerResources env sdk (data_endpointName d) (data_endpointConfigName d)
                    (data_modelName d) w = (Inl e, w')
           \<or> action body = Some ''get_upload_url''
               \<and> outside (getPresignedUploadUrl sdk (data_filename d) (data_contentType d)) w = (Inl e, w'))"
  then have r: "request = Inr body" and d: "data body = Some d" by simp_all
  from a have "dispatch env rt sdk request w = (Inl e, w')"
    unfolding dispatch_Inr [OF r]
    by (elim conjE disjE) (simp_all add: d await_def lift_def)
  then show "POST env rt sdk request w =
                (\<lparr> http_status = 500,
                   http_body = ErrorBody ''Failed to process your request''
                     (Some (if instanceofError e then message e else ''Unknown error'')) \<rparr>, w')"
    by (simp add: POST_def caught_def jsonWithStatus_def)
next
  assume a: "request = Inl e \<or> (request = Inr body \<and> data body = None \<and>
             action body \<in> Some ` {''create_job'', ''get_job_status'', ''deploy_model'',
             ''get_endpoint_status'', ''get_forecast'', ''cleanup_resources'', ''get_upload_url''})"
  then show "http_status (fst (POST env rt sdk request w)) = 500"
  proof
    assume "request = Inl e"
    then show ?thesis
      by (simp add: POST_def dispatch_def await_def lift_def caught_def jsonWithStatus_def)
  next
    assume b: "request = Inr body \<and> data body = None \<and>
             action body \<in> Some ` {''create_job'', ''get_job_status'', ''deploy_model'',
             ''get_endpoint_status'', ''get_forecast'', ''cleanup_resources'', ''get_upload_url''}"
    then have r: "request = Inr body" by simp
    from b have "\<exists>err. dispatch env rt sdk request w = (Inl err, w)"
      unfolding dispatch_Inr [OF r] by (auto simp: await_def lift_def)
    then show ?thesis
      by (auto simp: POST_def caught_def jsonWithStatus_def)
  qed
qed


lemma demo_deploy_fails:
  "deployBestModel demo_env demo_sdk_no_candidate (data_jobName demo_data) demo_world =
       (Inl (Error ''No candidates found for the job''),
        \<lparr> remote = 2, cachedConfig = None, ssmCalls = [''/retail-forecasting/prod/config''],
          calls = [(ListCandidatesForAutoMLJobCommand ''retail-forecast-1700000000000'', None)] \<rparr>)"
  by (simp add: deployBestModel_def await_def lift_def send_def getSageMakerClient_def
        getConfig_def fetchConfig_def parameterName_def bestCandidateOf_def
        demo_data_def demo_env_def demo_sdk_no_candidate_def demo_sdk_def demo_world_def)

theorem POST_errors_witness:
  "POST demo_env demo_runtime demo_sdk (Inr \<lparr> action = Some ''train'', data = None \<rparr>) demo_world =
     (\<lparr> http_status = 400, http_body = ErrorBody ''Invalid action'' None \<rparr>, demo_world)
   \<and> POST demo_env demo_runtime demo_sdk_no_candidate
         (Inr \<lparr> action = Some ''deploy_model'', data = Some demo_data \<rparr>) demo_world =
     (\<lparr> http_status = 500,
        http_body = ErrorBody ''Failed to process your request''
                      (Some ''No candidates found for the job'') \<rparr>,
      \<lparr> remote = 2, cachedConfig = None, ssmCalls = [''/retail-forecasting/prod/config''],
        calls = [(ListCandidatesForAutoMLJobCommand ''retail-forecast-1700000000000'', None)] \<rparr>)
   \<and> http_status (fst (POST demo_env demo_runtime demo_sdk
         (Inr \<lparr> action = Some ''deploy_model'', data = None \<rparr>) demo_world)) = 500"
proof -
  have a: "POST demo_env demo_runtime demo_sdk (Inr \<lparr> action = Some ''train'', data = None \<rparr>) demo_world =
     (\<lparr> http_status = 400, http_body = ErrorBody ''Invalid action'' None \<rparr>, demo_world)"
    using POST_errors [where request = "Inr \<lparr> action = Some ''train'', data = None \<rparr>"
        and body = "\<lparr> action = Some ''train'', data = None \<rparr>" and env = demo_env
        and rt = demo_runtime and sdk = demo_sdk and w = demo_world]
    by simp
  have b: "POST demo_env demo_runtime demo_sdk_no_candidate
         (Inr \<lparr> action = Some ''deploy_model'', data = Some demo_data \<rparr>) demo_world =
     (\<lparr> http_status = 500,
        http_body = ErrorBody ''Failed to process your request''
                      (Some ''No candidates found for the job'') \<rparr>,
      \<lparr> remote = 2, cachedConfig = None, ssmCalls = [''/retail-forecasting/prod/config''],
        calls = [(ListCandidatesForAutoMLJobCommand ''retail-forecast-1700000000000'', None)] \<rparr>)"
    using POST_errors [where request = "Inr \<lparr> action = Some ''deploy_model'', data = Some demo_data \<rparr>"
        and body = "\<lparr> action = Some ''deploy_model'', data = Some demo_data \<rparr>" and env = demo_env
        and rt = demo_runtime and sdk = demo_sdk_no_candidate and w = demo_world and d = demo_data
        and e = "Error ''No candidates found for the job''"
        and w' = "\<lparr> remote = 2, cachedConfig = None, ssmCalls = [''/retail-forecasting/prod/config''],
          calls = [(ListCandidatesForAutoMLJobCommand ''retail-forecast-1700000000000'', None)] \<rparr>"]
      demo_deploy_fails
    by simp
  have c: "http_status (fst (POST demo_env demo_runtime demo_sdk
         (Inr \<lparr> action = Some ''deploy_model'', data = None \<rparr>) demo_world)) = 500"
    using POST_errors [where request = "Inr \<lparr> action = Some ''deploy_model'', data = None \<rparr>"
        and body = "\<lparr> action = Some ''deploy_model'', data = None \<rparr>" and env = demo_env
        and rt = demo_runtime and sdk = demo_sdk and w = demo_world]
    by simp
  from a b c show ?thesis by (intro conjI)
qed

section \<open>Properties of the Date operations\<close>

text \<open>
  The search finds the year that ECMA-262 means by \<open>YearFromTime\<close>: the one whose first
  day is not after the given day while the first day of the next year is.
\<close>

lemma DaysInYear_bounds: "365 \<le> DaysInYear y" "DaysInYear y \<le> 366"
  by (simp_all add: DaysInYear_def)

lemma DayFromYear_add: "DayFromYear y + 365 * int k \<le> DayFromYear (y + int k) \<and> DayFromYear (y + int k) \<le> DayFromYear y + 366 * int k"
proof (induction k)
  case 0
  then show ?case by simp
next
  case (Suc k)
  have "DayFromYear (y + int (Suc k)) = DayFromYear (y + int k) + DaysInYear (y + int k)"
    using DayFromYear_Suc [of "y + int k"] by (simp add: algebra_simps)
  with Suc DaysInYear_bounds [of "y + int k"] show ?case by simp
qed

lemma DayFromYear_less: assumes "y < y'" shows "DayFromYear y < DayFromYear y'"
proof -
  define k where "k = nat (y' - y)"
  have k: "y' = y + int k" "0 < k" using assms by (simp_all add: k_def)
  from DayFromYear_add [of y k] k show ?thesis by simp
qed

lemma DayFromYear_le: "y \<le> y' \<Longrightarrow> DayFromYear y \<le> DayFromYear y'"
  using DayFromYear_less [of y y'] by (cases "y = y'") auto

lemma yearFrom_spec:
  "DayFromYear y \<le> d \<Longrightarrow> DayFromYear (yearFrom y d) \<le> d \<and> d < DayFromYear (yearFrom y d + 1)"
proof (induction y d rule: yearFrom.induct)
  case (1 y d)
  show ?case
  proof (cases "DayFromYear (y + 1) \<le> d")
    case True
    with "1.IH" show ?thesis by (simp add: yearFrom.simps [of y d])
  next
    case False
    with "1.prems" show ?thesis by (simp add: yearFrom.simps [of y d])
  qed
qed

lemma DayFromYear_1970: "DayFromYear 1970 = 0"
  by (simp add: DayFromYear_def)

lemma estimate_le: "DayFromYear (1970 + (if d < 0 then d div 365 else d div 366)) \<le> d"
proof (cases "d < 0")
  case False
  define k where "k = nat (d div 366)"
  have k: "d div 366 = int k" using False by (simp add: k_def)
  have "DayFromYear (1970 + int k) \<le> 366 * int k"
    using DayFromYear_add [of 1970 k] by (simp add: DayFromYear_1970)
  moreover have "366 * (d div 366) \<le> d"
    using mult_div_mod_eq [of 366 d] pos_mod_sign [of 366 d] by linarith
  ultimately show ?thesis using False k by simp
next
  case True
  define k where "k = nat (- (d div 365))"
  have neg: "d div 365 < 0" using True by (simp add: div_neg_pos_less0)
  then have k: "d div 365 = - int k" by (simp add: k_def)
  have "DayFromYear (1970 - int k) + 365 * int k \<le> DayFromYear (1970 - int k + int k)"
    using DayFromYear_add [of "1970 - int k" k] by blast
  then have "DayFromYear (1970 - int k) \<le> - 365 * int k" by (simp add: DayFromYear_1970)
  moreover have "365 * (d div 365) \<le> d"
    using mult_div_mod_eq [of 365 d] pos_mod_sign [of 365 d] by linarith
  ultimately show ?thesis using True k by simp
qed

lemma YearFromDay_spec:
  "DayFromYear (YearFromDay d) \<le> d \<and> d < DayFromYear (YearFromDay d + 1)"
  unfolding YearFromDay_def by (rule yearFrom_spec [OF estimate_le])

lemma YearFromDay_unique:
  assumes "DayFromYear y \<le> d" "d < DayFromYear (y + 1)"
  shows "YearFromDay d = y"
proof (rule ccontr)
  assume ne: "YearFromDay d \<noteq> y"
  let ?z = "YearFromDay d"
  from YearFromDay_spec [of d] have z: "DayFromYear ?z \<le> d" "d < DayFromYear (?z + 1)" by simp_all
  from ne consider "?z + 1 \<le> y" | "y + 1 \<le> ?z" by linarith
  then show False
  proof cases
    case 1
    from DayFromYear_le [OF 1] z assms show False by simp
  next
    case 2
    from DayFromYear_le [OF 2] z assms show False by simp
  qed
qed

section \<open>Properties of getForecastFromEndpoint\<close>

text \<open>
  Claim C1.  The code does not do what the claim says: no call of
  \<open>getForecastFromEndpoint\<close> returns a point.  \<open>InvokeEndpointCommand\<close> is imported from a
  package that does not export it, so every call throws, the exception of the client
  when no client can be built and else the \<open>TypeError\<close> of \<open>new InvokeEndpointCommand\<close>,
  before anything is sent to the endpoint: the state is unchanged.  So it is for the
  history 2024-01-01, 2024-02-01 and the horizon 3 of the claim.
\<close>

theorem getForecastFromEndpoint_throws:
  "getForecastFromEndpoint env rt sdk endpoint historicalData forecastHorizon w =
     (Inl (case newClient sdk of
             Some err \<Rightarrow> err
           | None \<Rightarrow> TypeError ''InvokeEndpointCommand is not a constructor''), w)
   \<and> getForecastFromEndpoint demo_env demo_runtime demo_sdk
        ''retail-forecast-1700000000000-endpoint'' demo_history 3 demo_world =
     (Inl (TypeError ''InvokeEndpointCommand is not a constructor''), demo_world)"
proof -
  have run: "getForecastFromEndpoint env rt sdk endpoint historicalData forecastHorizon w =
     (Inl (case newClient sdk of
             Some err \<Rightarrow> err
           | None \<Rightarrow> TypeError ''InvokeEndpointCommand is not a constructor''), w)"
    by (simp add: getForecastFromEndpoint_def getSageMakerClient_def newInvokeEndpointCommand_def
          await_def lift_def Let_def split: option.splits)
  have demo: "getForecastFromEndpoint demo_env demo_runtime demo_sdk
        ''retail-forecast-1700000000000-endpoint'' demo_history 3 demo_world =
     (Inl (TypeError ''InvokeEndpointCommand is not a constructor''), demo_world)"
    by (simp add: getForecastFromEndpoint_def getSageMakerClient_def newInvokeEndpointCommand_def
          await_def lift_def Let_def demo_sdk_def)
  from run demo show ?thesis by (intro conjI)
qed

text \<open>
  The conversion that the code would apply to a response, had one arrived.  It returns
  as many points as \<open>mean\<close> has values, whatever the horizon.  For the history of the claim
  and three values it gives the dates of the claim in UTC; five hours behind UTC (Bogota)
  and in New York it gives other dates, since the date strings are read as UTC midnight
  and the month is set in local time, where the last date is 2024-01-31 19:00; and from
  a last date 2024-01-31 the dates are not one calendar month apart.
\<close>

lemma convert_example:
  "convertResponseToDataPoints demo_runtime demo_response demo_history =
     Inr [\<lparr> date = ''2024-03-01T00:00:00.000Z'', actual = None, forecast = Some 1 \<rparr>,
          \<lparr> date = ''2024-04-01T00:00:00.000Z'', actual = None, forecast = Some 2 \<rparr>,
          \<lparr> date = ''2024-05-01T00:00:00.000Z'', actual = None, forecast = Some 3 \<rparr>]"
  by code_simp

lemma convert_single_value:
  "convertResponseToDataPoints demo_runtime demo_response_short demo_history =
     Inr [\<lparr> date = ''2024-03-01T00:00:00.000Z'', actual = None, forecast = Some 5 \<rparr>]"
  by code_simp

lemma convert_month_end:
  "convertResponseToDataPoints demo_runtime demo_response demo_history_month_end =
     Inr [\<lparr> date = ''2024-03-02T00:00:00.000Z'', actual = None, forecast = Some 1 \<rparr>,
          \<lparr> date = ''2024-03-31T00:00:00.000Z'', actual = None, forecast = Some 2 \<rparr>,
          \<lparr> date = ''2024-05-01T00:00:00.000Z'', actual = None, forecast = Some 3 \<rparr>]"
  by code_simp

lemma convert_bogota:
  "convertResponseToDataPoints demo_runtime_bogota demo_response demo_history =
     Inr [\<lparr> date = ''2024-03-03T00:00:00.000Z'', actual = None, forecast = Some 1 \<rparr>,
          \<lparr> date = ''2024-04-01T00:00:00.000Z'', actual = None, forecast = Some 2 \<rparr>,
          \<lparr> date = ''2024-05-02T00:00:00.000Z'', actual = None, forecast = Some 3 \<rparr>]"
  by code_simp

lemma convert_new_york:
  "convertResponseToDataPoints demo_runtime_new_york demo_response demo_history =
     Inr [\<lparr> date = ''2024-03-03T00:00:00.000Z'', actual = None, forecast = Some 1 \<rparr>,
          \<lparr> date = ''2024-03-31T23:00:00.000Z'', actual = None, forecast = Some 2 \<rparr>,
          \<lparr> date = ''2024-05-01T23:00:00.000Z'', actual = None, forecast = Some 3 \<rparr>]"
  by code_simp

section \<open>Properties of the reads of the history\<close>

lemma elementAt_last: "xs \<noteq> [] \<Longrightarrow> elementAt xs (int (length xs) - 1) = Some (last xs)"
  by (cases xs rule: rev_cases) (simp_all add: elementAt_def nth_append)

lemma elementAt_first: "xs \<noteq> [] \<Longrightarrow> elementAt xs 0 = Some (hd xs)"
  by (cases xs) (simp_all add: elementAt_def)

lemma elementAt_Nil: "elementAt [] i = None"
  by (simp add: elementAt_def)

lemma mapIndexed_Inl:
  "mapIndexed f xs k = Inl e \<Longrightarrow> \<exists>x i. f x i = Inl e"
  by (induction xs arbitrary: k) (auto split: sum.splits)

lemma forecastPoint_Inl: "forecastPoint rt d v i = Inl e \<Longrightarrow> e = RangeError ''Invalid time value''"
  by (auto simp: forecastPoint_def toISOString_def split: sum.splits option.splits)

text \<open>
  Claim C10.  For the empty history the payload's \<open>start\<close> is \<open>undefined\<close> (the read of
  \<open>dates[0]\<close> is out of range), the conversion of any response throws at the read of
  \<open>historicalData[historicalData.length - 1].date\<close>, and \<open>getForecastFromEndpoint\<close> never
  returns a result.  For every non-empty history both reads are in range: \<open>start\<close> is the
  formatted first date, the last element is read, and the conversion does not throw
  that error.
\<close>

theorem history_access:
  "start (hd (instances (prepareInputData rt [] horizon))) = None
   \<and> convertResponseToDataPoints rt resp [] =
       Inl (TypeError ''Cannot read properties of undefined (reading date)'')
   \<and> (\<forall>pts. fst (getForecastFromEndpoint env rt sdk endpoint [] horizon w) \<noteq> Inr pts)
   \<and> (hist \<noteq> [] \<longrightarrow>
         elementAt (map (formatDate rt) hist) 0 = Some (formatDate rt (hd hist))
       \<and> start (hd (instances (prepareInputData rt hist horizon))) = Some (formatDate rt (hd hist))
       \<and> elementAt hist (int (length hist) - 1) = Some (last hist)
       \<and> convertResponseToDataPoints rt resp hist \<noteq>
           Inl (TypeError ''Cannot read properties of undefined (reading date)''))"
proof (intro conjI allI impI)
  show "start (hd (instances (prepareInputData rt [] horizon))) = None"
    by (simp add: prepareInputData_def elementAt_Nil)
  show c: "convertResponseToDataPoints rt resp [] =
       Inl (TypeError ''Cannot read properties of undefined (reading date)'')" for resp
    by (simp add: convertResponseToDataPoints_def elementAt_Nil)
  show "fst (getForecastFromEndpoint env rt sdk endpoint [] horizon w) \<noteq> Inr pts" for pts
    by (auto simp: getForecastFromEndpoint_def newInvokeEndpointCommand_def await_def lift_def
          Let_def split: sum.splits prod.splits)
next
  assume h: "hist \<noteq> []"
  then have m: "map (formatDate rt) hist \<noteq> []" by simp
  show f: "elementAt (map (formatDate rt) hist) 0 = Some (formatDate rt (hd hist))"
    using elementAt_first [OF m] h by (simp add: hd_map)
  show "start (hd (instances (prepareInputData rt hist horizon))) = Some (formatDate rt (hd hist))"
    by (simp add: prepareInputData_def f)
  show l: "elementAt hist (int (length hist) - 1) = Some (last hist)"
    by (rule elementAt_last [OF h])
  show "convertResponseToDataPoints rt resp hist \<noteq>
           Inl (TypeError ''Cannot read properties of undefined (reading date)'')"
  proof
    assume "convertResponseToDataPoints rt resp hist =
           Inl (TypeError ''Cannot read properties of undefined (reading date)'')"
    then show False
      by (auto simp: convertResponseToDataPoints_def l Let_def
            split: option.splits dest!: mapIndexed_Inl forecastPoint_Inl)
  qed
qed

theorem history_access_witness:
  "demo_history \<noteq> []
   \<and> start (hd (instances (prepareInputData demo_runtime demo_history 3))) = Some ''2024-01-01''
   \<and> elementAt demo_history (int (length demo_history) - 1) =
       Some \<lparr> date = ''2024-02-01'', actual = Some 12, forecast = None \<rparr>
   \<and> start (hd (instances (prepareInputData demo_runtime [] 3))) = None"
proof -
  have h: "demo_history \<noteq> []" by (simp add: demo_history_def)
  have f: "formatDate demo_runtime (hd demo_history) = ''2024-01-01''" by code_simp
  have l: "last demo_history = \<lparr> date = ''2024-02-01'', actual = Some 12, forecast = None \<rparr>"
    by (simp add: demo_history_def)
  from history_access [where rt = demo_runtime and horizon = 3 and hist = demo_history
      and resp = "\<lparr> predictions = None \<rparr>" and env = demo_env and sdk = demo_sdk
      and endpoint = "''retail-forecast-1700000000000-endpoint''" and w = demo_world]
    h f l show ?thesis by simp
qed

end
